theory Spec2Isabelle
  imports Complex_Main "HOL-Library.Word" "HOL-Library.Sublist" "HOL-Library.Signed_Division"
begin

section \<open>Event payloads of the storage engine and their redaction-aware rendering\<close>

text \<open>
  The development follows \<^verbatim>\<open>event.go\<close> of the \<^verbatim>\<open>pebble\<close> package. Every
  \<^verbatim>\<open>SafeFormat\<close> method writes to a \<^verbatim>\<open>redact.SafePrinter\<close>; the printer is
  modelled by the sequence of pieces written to it, each piece carrying the tag the call
  gave it. The text of a format string, an argument wrapped by \<^verbatim>\<open>redact.Safe\<close> and
  a \<^verbatim>\<open>redact.SafeString\<close> are safe pieces; an argument handed over without the
  wrapper (the \<^verbatim>\<open>Err\<close> fields) is an unsafe piece, which the redact library
  encloses in redaction markers. Successive \<^verbatim>\<open>Printf\<close> calls append.
\<close>

subsection \<open>Tagged output\<close>

datatype piece = Safe string | Unsafe string

primrec piece_text :: "piece \<Rightarrow> string" where
  "piece_text (Safe s) = s"
| "piece_text (Unsafe s) = s"

primrec is_safe :: "piece \<Rightarrow> bool" where
  "is_safe (Safe s) = True"
| "is_safe (Unsafe s) = False"

text \<open>The text of a rendering, markers left out.\<close>

definition plain :: "piece list \<Rightarrow> string" where
  "plain ps = concat (map piece_text ps)"

text \<open>A non-nil \<^verbatim>\<open>error\<close> is represented by its message.\<close>

type_synonym error = string

subsection \<open>Decimal formatting (the verb \<^verbatim>\<open>%d\<close>)\<close>

definition digit_char :: "nat \<Rightarrow> char" where
  "digit_char d = ''0123456789'' ! d"

fun fmt_nat :: "nat \<Rightarrow> string" where
  "fmt_nat n = (if n < 10 then [digit_char n] else fmt_nat (n div 10) @ [digit_char (n mod 10)])"

declare fmt_nat.simps [simp del]

definition fmt_d :: "int \<Rightarrow> string" where
  "fmt_d i = (if i < 0 then CHR ''-'' # fmt_nat (nat (- i)) else fmt_nat (nat i))"

subsection \<open>Binary64 arithmetic\<close>

text \<open>
  A \<^verbatim>\<open>float64\<close> is a rational, an infinity or a NaN. \<open>f64_round\<close> is rounding
  to the nearest binary64 value, ties to the even significand, with gradual underflow and
  overflow to infinity. The sign of a zero is not kept: the only divisor that can be zero in
  this program is the number of seconds of a zero \<^verbatim>\<open>Duration\<close>, which is \<open>+0\<close>.
\<close>

datatype float64 = Finite rat | PosInf | NegInf | NaN

fun bit_length :: "nat \<Rightarrow> nat" where
  "bit_length n = (if n = 0 then 0 else Suc (bit_length (n div 2)))"

declare bit_length.simps [simp del]

definition pow2 :: "int \<Rightarrow> rat" where
  "pow2 k = (if 0 \<le> k then 2 ^ nat k else 1 / 2 ^ nat (- k))"

definition floor_log2 :: "rat \<Rightarrow> int" where
  "floor_log2 q =
     (let (a, b) = quotient_of q;
          k = int (bit_length (nat a)) - int (bit_length (nat b))
      in if pow2 k \<le> q then k else k - 1)"

definition round_half_even :: "rat \<Rightarrow> int" where
  "round_half_even x =
     (let f = \<lfloor>x\<rfloor>; r = x - of_int f
      in if r < 1 / 2 then f else if 1 / 2 < r then f + 1
         else if even f then f else f + 1)"

definition f64_round :: "rat \<Rightarrow> float64" where
  "f64_round q =
     (if q = 0 then Finite 0
      else
        let e = max (floor_log2 \<bar>q\<bar> - 52) (- 1074);
            m = round_half_even (\<bar>q\<bar> / pow2 e);
            v = of_int m * pow2 e
        in if pow2 1024 \<le> v then (if 0 < q then PosInf else NegInf)
           else Finite (if 0 < q then v else - v))"

fun f64_add :: "float64 \<Rightarrow> float64 \<Rightarrow> float64" where
  "f64_add (Finite a) (Finite b) = f64_round (a + b)"
| "f64_add NaN y = NaN"
| "f64_add x NaN = NaN"
| "f64_add PosInf NegInf = NaN"
| "f64_add NegInf PosInf = NaN"
| "f64_add PosInf y = PosInf"
| "f64_add NegInf y = NegInf"
| "f64_add x PosInf = PosInf"
| "f64_add x NegInf = NegInf"

fun f64_div :: "float64 \<Rightarrow> float64 \<Rightarrow> float64" where
  "f64_div (Finite a) (Finite b) =
     (if b = 0 then (if a = 0 then NaN else if 0 < a then PosInf else NegInf)
      else f64_round (a / b))"
| "f64_div NaN y = NaN"
| "f64_div x NaN = NaN"
| "f64_div (Finite a) y = Finite 0"
| "f64_div PosInf (Finite b) = (if b < 0 then NegInf else PosInf)"
| "f64_div NegInf (Finite b) = (if b < 0 then PosInf else NegInf)"
| "f64_div x y = NaN"

text \<open>The conversions \<^verbatim>\<open>float64(x)\<close> of an \<^verbatim>\<open>int64\<close> and of a \<^verbatim>\<open>uint64\<close>.\<close>

definition f64_of_int64 :: "int \<Rightarrow> float64" where
  "f64_of_int64 k = f64_round (of_int k)"

definition f64_of_uint64 :: "64 word \<Rightarrow> float64" where
  "f64_of_uint64 w = f64_round (of_nat (unat w))"

text \<open>
  \<^verbatim>\<open>time.Duration\<close> is an \<^verbatim>\<open>int64\<close> count of nanoseconds;
  \<^verbatim>\<open>Seconds\<close> divides with truncation and adds the fraction:
  \<^verbatim>\<open>sec := d / Second; nsec := d % Second; return float64(sec) + float64(nsec)/1e9\<close>.
\<close>

definition Duration_Seconds :: "64 word \<Rightarrow> float64" where
  "Duration_Seconds d =
     (let sec = sint d sdiv 1000000000;
          nsec = sint d smod 1000000000
      in f64_add (f64_of_int64 sec) (f64_div (f64_of_int64 nsec) (Finite 1000000000)))"

text \<open>The verb \<^verbatim>\<open>%.1f\<close>: one decimal, the exact value rounded half to even.\<close>

definition fmt_1f :: "float64 \<Rightarrow> string" where
  "fmt_1f x =
     (case x of
        Finite q \<Rightarrow>
          (let n = nat (round_half_even (\<bar>q\<bar> * 10))
           in (if q < 0 then ''-'' else '''') @ fmt_nat (n div 10) @ ''.'' @ fmt_nat (n mod 10))
      | PosInf \<Rightarrow> ''+Inf''
      | NegInf \<Rightarrow> ''-Inf''
      | NaN \<Rightarrow> ''NaN'')"

subsection \<open>Collaborators outside the file\<close>

text \<open>
  \<^verbatim>\<open>humanize.Uint64\<close> and \<^verbatim>\<open>FileNum.String\<close> are defined in other packages
  and are parameters here. The conversion \<^verbatim>\<open>uint64(f)\<close> of a float that, truncated,
  is not a \<^verbatim>\<open>uint64\<close> (an infinity, a NaN, a negative or too large number) succeeds
  in Go with an implementation-dependent value: that value is the third parameter.
\<close>

record ext =
  humanize_Uint64 :: "64 word \<Rightarrow> string"
  FileNum_String :: "64 word \<Rightarrow> string"
  uint64_unrepresentable :: "float64 \<Rightarrow> 64 word"

definition uint64_of_f64 :: "ext \<Rightarrow> float64 \<Rightarrow> 64 word" where
  "uint64_of_f64 X x =
     (case x of
        Finite q \<Rightarrow>
          (let t = (if 0 \<le> q then \<lfloor>q\<rfloor> else \<lceil>q\<rceil>)
           in if 0 \<le> t \<and> t < 2 ^ 64 then word_of_int t else uint64_unrepresentable X x)
      | _ \<Rightarrow> uint64_unrepresentable X x)"

subsection \<open>Tables and levels\<close>

text \<open>
  Modelled from the spec: \<^verbatim>\<open>TableInfo\<close> is declared in the \<^verbatim>\<open>manifest\<close>
  package, outside this file; the specification gives it as \<^verbatim>\<open>{FileNum, Size (bytes)}\<close>,
  the two fields this file reads, both \<^verbatim>\<open>uint64\<close>.
\<close>

record TableInfo =
  FileNum :: "64 word"
  Size :: "64 word"

primrec tablesTotalSize_from :: "64 word \<Rightarrow> TableInfo list \<Rightarrow> 64 word" where
  "tablesTotalSize_from sz [] = sz"
| "tablesTotalSize_from sz (t # ts) = tablesTotalSize_from (sz + Size t) ts"

definition tablesTotalSize :: "TableInfo list \<Rightarrow> 64 word" where
  "tablesTotalSize tables = tablesTotalSize_from 0 tables"

primrec formatFileNums_from :: "ext \<Rightarrow> nat \<Rightarrow> string \<Rightarrow> TableInfo list \<Rightarrow> string" where
  "formatFileNums_from X i buf [] = buf"
| "formatFileNums_from X i buf (t # ts) =
     formatFileNums_from X (Suc i)
       ((if 0 < i then buf @ '' '' else buf) @ FileNum_String X (FileNum t)) ts"

definition formatFileNums :: "ext \<Rightarrow> TableInfo list \<Rightarrow> string" where
  "formatFileNums X tables = formatFileNums_from X 0 [] tables"

record LevelInfo =
  Level :: int
  Tables :: "TableInfo list"

definition LevelInfo_safeFormat :: "ext \<Rightarrow> LevelInfo \<Rightarrow> piece list" where
  "LevelInfo_safeFormat X i =
     [Safe ''L'', Safe (fmt_d (Level i)), Safe '' ['', Safe (formatFileNums X (Tables i)),
      Safe ''] ('', Safe (humanize_Uint64 X (tablesTotalSize (Tables i))), Safe '')'']"

subsection \<open>Compaction\<close>

record CompactionInfo =
  JobID :: int
  Reason :: string
  Input :: "LevelInfo list"
  Output :: LevelInfo
  Duration :: "64 word"
  Done :: bool
  Err :: "error option"

primrec safeFormatInputs_from :: "ext \<Rightarrow> nat \<Rightarrow> LevelInfo list \<Rightarrow> piece list" where
  "safeFormatInputs_from X j [] = []"
| "safeFormatInputs_from X j (levelInfo # rest) =
     (if 0 < j then [Safe '' + ''] else []) @ LevelInfo_safeFormat X levelInfo
       @ safeFormatInputs_from X (Suc j) rest"

definition CompactionInfo_safeFormatInputs :: "ext \<Rightarrow> CompactionInfo \<Rightarrow> piece list" where
  "CompactionInfo_safeFormatInputs X i = safeFormatInputs_from X 0 (Input i)"

text \<open>The rate argument: \<^verbatim>\<open>uint64(float64(outputSize)/i.Duration.Seconds())\<close>.\<close>

definition outputRate :: "ext \<Rightarrow> 64 word \<Rightarrow> 64 word \<Rightarrow> 64 word" where
  "outputRate X outputSize d =
     uint64_of_f64 X (f64_div (f64_of_uint64 outputSize) (Duration_Seconds d))"

definition CompactionInfo_SafeFormat :: "ext \<Rightarrow> CompactionInfo \<Rightarrow> piece list" where
  "CompactionInfo_SafeFormat X i =
     (case CompactionInfo.Err i of
        Some e \<Rightarrow>
          [Safe ''[JOB '', Safe (fmt_d (CompactionInfo.JobID i)), Safe ''] compaction to L'',
           Safe (fmt_d (Level (Output i))), Safe '' error: '', Unsafe e]
      | None \<Rightarrow>
          if \<not> CompactionInfo.Done i then
            [Safe ''[JOB '', Safe (fmt_d (CompactionInfo.JobID i)), Safe ''] compacting '']
              @ CompactionInfo_safeFormatInputs X i
          else
            let outputSize = tablesTotalSize (Tables (Output i))
            in [Safe ''[JOB '', Safe (fmt_d (CompactionInfo.JobID i)), Safe ''] compacted '']
                 @ CompactionInfo_safeFormatInputs X i
                 @ [Safe '' -> L'', Safe (fmt_d (Level (Output i))), Safe '' ['',
                    Safe (formatFileNums X (Tables (Output i))), Safe ''] ('',
                    Safe (humanize_Uint64 X outputSize), Safe ''), in '',
                    Safe (fmt_1f (Duration_Seconds (CompactionInfo.Duration i))),
                    Safe ''s, output rate '',
                    Safe (humanize_Uint64 X
                            (outputRate X outputSize (CompactionInfo.Duration i))),
                    Safe ''/s''])"

subsection \<open>Flush\<close>

record FlushInfo =
  JobID :: int
  Reason :: string
  Input :: int
  Output :: "TableInfo list"
  Duration :: "64 word"
  Done :: bool
  Err :: "error option"

definition FlushInfo_SafeFormat :: "ext \<Rightarrow> FlushInfo \<Rightarrow> piece list" where
  "FlushInfo_SafeFormat X i =
     (case FlushInfo.Err i of
        Some e \<Rightarrow> [Safe ''[JOB '', Safe (fmt_d (FlushInfo.JobID i)), Safe ''] flush error: '', Unsafe e]
      | None \<Rightarrow>
          let plural = (if FlushInfo.Input i = 1 then '''' else ''s'')
          in if \<not> FlushInfo.Done i then
               [Safe ''[JOB '', Safe (fmt_d (FlushInfo.JobID i)), Safe ''] flushing '',
                Safe (fmt_d (FlushInfo.Input i)), Safe '' memtable'', Safe plural, Safe '' to L0'']
             else
               let outputSize = tablesTotalSize (FlushInfo.Output i)
               in [Safe ''[JOB '', Safe (fmt_d (FlushInfo.JobID i)), Safe ''] flushed '',
                   Safe (fmt_d (FlushInfo.Input i)), Safe '' memtable'', Safe plural,
                   Safe '' to L0 ['', Safe (formatFileNums X (FlushInfo.Output i)), Safe ''] ('',
                   Safe (humanize_Uint64 X outputSize), Safe ''), in '',
                   Safe (fmt_1f (Duration_Seconds (FlushInfo.Duration i))),
                   Safe ''s, output rate '',
                   Safe (humanize_Uint64 X (outputRate X outputSize (FlushInfo.Duration i))),
                   Safe ''/s''])"

subsection \<open>Manifest, table and WAL events\<close>

record ManifestCreateInfo =
  JobID :: int
  Path :: string
  FileNum :: "64 word"
  Err :: "error option"

definition ManifestCreateInfo_SafeFormat :: "ext \<Rightarrow> ManifestCreateInfo \<Rightarrow> piece list" where
  "ManifestCreateInfo_SafeFormat X i =
     (case ManifestCreateInfo.Err i of
        Some e \<Rightarrow>
          [Safe ''[JOB '', Safe (fmt_d (ManifestCreateInfo.JobID i)),
           Safe ''] MANIFEST create error: '', Unsafe e]
      | None \<Rightarrow>
          [Safe ''[JOB '', Safe (fmt_d (ManifestCreateInfo.JobID i)), Safe ''] MANIFEST created '',
           Safe (FileNum_String X (ManifestCreateInfo.FileNum i))])"

record ManifestDeleteInfo =
  JobID :: int
  Path :: string
  FileNum :: "64 word"
  Err :: "error option"

definition ManifestDeleteInfo_SafeFormat :: "ext \<Rightarrow> ManifestDeleteInfo \<Rightarrow> piece list" where
  "ManifestDeleteInfo_SafeFormat X i =
     (case ManifestDeleteInfo.Err i of
        Some e \<Rightarrow>
          [Safe ''[JOB '', Safe (fmt_d (ManifestDeleteInfo.JobID i)),
           Safe ''] MANIFEST delete error: '', Unsafe e]
      | None \<Rightarrow>
          [Safe ''[JOB '', Safe (fmt_d (ManifestDeleteInfo.JobID i)), Safe ''] MANIFEST deleted '',
           Safe (FileNum_String X (ManifestDeleteInfo.FileNum i))])"

record TableCreateInfo =
  JobID :: int
  Reason :: string
  Path :: string
  FileNum :: "64 word"

definition TableCreateInfo_SafeFormat :: "ext \<Rightarrow> TableCreateInfo \<Rightarrow> piece list" where
  "TableCreateInfo_SafeFormat X i =
     [Safe ''[JOB '', Safe (fmt_d (TableCreateInfo.JobID i)), Safe ''] '',
      Safe (TableCreateInfo.Reason i), Safe '': sstable created '',
      Safe (FileNum_String X (TableCreateInfo.FileNum i))]"

record TableDeleteInfo =
  JobID :: int
  Path :: string
  FileNum :: "64 word"
  Err :: "error option"

definition TableDeleteInfo_SafeFormat :: "ext \<Rightarrow> TableDeleteInfo \<Rightarrow> piece list" where
  "TableDeleteInfo_SafeFormat X i =
     (case TableDeleteInfo.Err i of
        Some e \<Rightarrow>
          [Safe ''[JOB '', Safe (fmt_d (TableDeleteInfo.JobID i)), Safe ''] sstable delete error '',
           Safe (FileNum_String X (TableDeleteInfo.FileNum i)), Safe '': '', Unsafe e]
      | None \<Rightarrow>
          [Safe ''[JOB '', Safe (fmt_d (TableDeleteInfo.JobID i)), Safe ''] sstable deleted '',
           Safe (FileNum_String X (TableDeleteInfo.FileNum i))])"

text \<open>An ingested table is a \<^verbatim>\<open>TableInfo\<close> embedded in a struct with the level.\<close>

record IngestedTable = TableInfo +
  Level :: int

record TableIngestInfo =
  JobID :: int
  Tables :: "IngestedTable list"
  GlobalSeqNum :: "64 word"
  Err :: "error option"

primrec ingestedTables_from :: "ext \<Rightarrow> nat \<Rightarrow> IngestedTable list \<Rightarrow> piece list" where
  "ingestedTables_from X j [] = []"
| "ingestedTables_from X j (t # ts) =
     (if 0 < j then [Safe '',''] else [])
       @ [Safe '' L'', Safe (fmt_d (IngestedTable.Level t)), Safe '':'',
          Safe (FileNum_String X (TableInfo.FileNum t)), Safe '' ('',
          Safe (humanize_Uint64 X (Size t)), Safe '')'']
       @ ingestedTables_from X (Suc j) ts"

definition TableIngestInfo_SafeFormat :: "ext \<Rightarrow> TableIngestInfo \<Rightarrow> piece list" where
  "TableIngestInfo_SafeFormat X i =
     (case TableIngestInfo.Err i of
        Some e \<Rightarrow>
          [Safe ''[JOB '', Safe (fmt_d (TableIngestInfo.JobID i)), Safe ''] ingest error: '',
           Unsafe e]
      | None \<Rightarrow>
          [Safe ''[JOB '', Safe (fmt_d (TableIngestInfo.JobID i)), Safe ''] ingested'']
            @ ingestedTables_from X 0 (TableIngestInfo.Tables i))"

record TableStatsInfo =
  JobID :: int

definition TableStatsInfo_SafeFormat :: "TableStatsInfo \<Rightarrow> piece list" where
  "TableStatsInfo_SafeFormat i =
     [Safe ''[JOB '', Safe (fmt_d (TableStatsInfo.JobID i)),
      Safe ''] all initial table stats loaded'']"

record WALCreateInfo =
  JobID :: int
  Path :: string
  FileNum :: "64 word"
  RecycledFileNum :: "64 word"
  Err :: "error option"

definition WALCreateInfo_SafeFormat :: "ext \<Rightarrow> WALCreateInfo \<Rightarrow> piece list" where
  "WALCreateInfo_SafeFormat X i =
     (case WALCreateInfo.Err i of
        Some e \<Rightarrow>
          [Safe ''[JOB '', Safe (fmt_d (WALCreateInfo.JobID i)), Safe ''] WAL create error: '',
           Unsafe e]
      | None \<Rightarrow>
          if RecycledFileNum i = 0 then
            [Safe ''[JOB '', Safe (fmt_d (WALCreateInfo.JobID i)), Safe ''] WAL created '',
             Safe (FileNum_String X (WALCreateInfo.FileNum i))]
          else
            [Safe ''[JOB '', Safe (fmt_d (WALCreateInfo.JobID i)), Safe ''] WAL created '',
             Safe (FileNum_String X (WALCreateInfo.FileNum i)), Safe '' (recycled '',
             Safe (FileNum_String X (RecycledFileNum i)), Safe '')''])"

record WALDeleteInfo =
  JobID :: int
  Path :: string
  FileNum :: "64 word"
  Err :: "error option"

definition WALDeleteInfo_SafeFormat :: "ext \<Rightarrow> WALDeleteInfo \<Rightarrow> piece list" where
  "WALDeleteInfo_SafeFormat X i =
     (case WALDeleteInfo.Err i of
        Some e \<Rightarrow>
          [Safe ''[JOB '', Safe (fmt_d (WALDeleteInfo.JobID i)), Safe ''] WAL delete error: '',
           Unsafe e]
      | None \<Rightarrow>
          [Safe ''[JOB '', Safe (fmt_d (WALDeleteInfo.JobID i)), Safe ''] WAL deleted '',
           Safe (FileNum_String X (WALDeleteInfo.FileNum i))])"

record WriteStallBeginInfo =
  Reason :: string

definition WriteStallBeginInfo_SafeFormat :: "WriteStallBeginInfo \<Rightarrow> piece list" where
  "WriteStallBeginInfo_SafeFormat i =
     [Safe ''write stall beginning: '', Safe (WriteStallBeginInfo.Reason i)]"

subsection \<open>The listener and its defaults\<close>

text \<open>
  A callback acts on the state of the world around the engine, of type \<open>'w\<close>; it
  returns the new state, or \<open>None\<close> when the call panics. A slot of the listener holds
  a callback or \<^verbatim>\<open>nil\<close> (\<open>None\<close>). A \<^verbatim>\<open>Logger\<close> is an interface value,
  possibly \<^verbatim>\<open>nil\<close>, with the method \<^verbatim>\<open>Infof\<close> of a format and its arguments;
  a method call on the \<^verbatim>\<open>nil\<close> interface panics.
\<close>

type_synonym 'w action = "'w \<Rightarrow> 'w option"

datatype arg = ErrorArg "error option"

record 'w Logger =
  Infof :: "string \<Rightarrow> arg list \<Rightarrow> 'w action"

record 'w EventListener =
  BackgroundError :: "(error option \<Rightarrow> 'w action) option"
  CompactionBegin :: "(CompactionInfo \<Rightarrow> 'w action) option"
  CompactionEnd :: "(CompactionInfo \<Rightarrow> 'w action) option"
  FlushBegin :: "(FlushInfo \<Rightarrow> 'w action) option"
  FlushEnd :: "(FlushInfo \<Rightarrow> 'w action) option"
  ManifestCreated :: "(ManifestCreateInfo \<Rightarrow> 'w action) option"
  ManifestDeleted :: "(ManifestDeleteInfo \<Rightarrow> 'w action) option"
  TableCreated :: "(TableCreateInfo \<Rightarrow> 'w action) option"
  TableDeleted :: "(TableDeleteInfo \<Rightarrow> 'w action) option"
  TableIngested :: "(TableIngestInfo \<Rightarrow> 'w action) option"
  TableStatsLoaded :: "(TableStatsInfo \<Rightarrow> 'w action) option"
  WALCreated :: "(WALCreateInfo \<Rightarrow> 'w action) option"
  WALDeleted :: "(WALDeleteInfo \<Rightarrow> 'w action) option"
  WriteStallBegin :: "(WriteStallBeginInfo \<Rightarrow> 'w action) option"
  WriteStallEnd :: "('w action) option"

definition EnsureDefaults :: "'w Logger option \<Rightarrow> 'w EventListener \<Rightarrow> 'w EventListener" where
  "EnsureDefaults logger l0 =
     (let l1 = (if BackgroundError l0 = None then
                  l0\<lparr>BackgroundError := Some (\<lambda>err.
                    case logger of
                      None \<Rightarrow> (\<lambda>w. None)
                    | Some lg \<Rightarrow> Infof lg ''background error: %s'' [ErrorArg err])\<rparr>
                else l0);
          l2 = (if CompactionBegin l1 = None then l1\<lparr>CompactionBegin := Some (\<lambda>info w. Some w)\<rparr> else l1);
          l3 = (if CompactionEnd l2 = None then l2\<lparr>CompactionEnd := Some (\<lambda>info w. Some w)\<rparr> else l2);
          l4 = (if FlushBegin l3 = None then l3\<lparr>FlushBegin := Some (\<lambda>info w. Some w)\<rparr> else l3);
          l5 = (if FlushEnd l4 = None then l4\<lparr>FlushEnd := Some (\<lambda>info w. Some w)\<rparr> else l4);
          l6 = (if ManifestCreated l5 = None then l5\<lparr>ManifestCreated := Some (\<lambda>info w. Some w)\<rparr> else l5);
          l7 = (if ManifestDeleted l6 = None then l6\<lparr>ManifestDeleted := Some (\<lambda>info w. Some w)\<rparr> else l6);
          l8 = (if TableCreated l7 = None then l7\<lparr>TableCreated := Some (\<lambda>info w. Some w)\<rparr> else l7);
          l9 = (if TableDeleted l8 = None then l8\<lparr>TableDeleted := Some (\<lambda>info w. Some w)\<rparr> else l8);
          l10 = (if TableIngested l9 = None then l9\<lparr>TableIngested := Some (\<lambda>info w. Some w)\<rparr> else l9);
          l11 = (if TableStatsLoaded l10 = None then l10\<lparr>TableStatsLoaded := Some (\<lambda>info w. Some w)\<rparr> else l10);
          l12 = (if WALCreated l11 = None then l11\<lparr>WALCreated := Some (\<lambda>info w. Some w)\<rparr> else l11);
          l13 = (if WALDeleted l12 = None then l12\<lparr>WALDeleted := Some (\<lambda>info w. Some w)\<rparr> else l12);
          l14 = (if WriteStallBegin l13 = None then l13\<lparr>WriteStallBegin := Some (\<lambda>info w. Some w)\<rparr> else l13);
          l15 = (if WriteStallEnd l14 = None then l14\<lparr>WriteStallEnd := Some (\<lambda>w. Some w)\<rparr> else l14)
      in l15)"

subsection \<open>Notions used to state the properties\<close>

text \<open>The characters a decimal number is written with.\<close>

definition decimal_digits :: "char set" where
  "decimal_digits = set ''0123456789''"

text \<open>
  The error shape of a rendering: the message of the error comes last and is the only
  piece that is not safe, and the text before it names an error and has no output rate.
\<close>

definition error_shape :: "piece list \<Rightarrow> error \<Rightarrow> bool" where
  "error_shape r e \<longleftrightarrow>
     r \<noteq> [] \<and> last r = Unsafe e \<and> list_all is_safe (butlast r)
     \<and> sublist ''error'' (plain (butlast r))
     \<and> \<not> sublist ''output rate'' (plain (butlast r))"

text \<open>
  Joining, as the specification words it: the separator stands between consecutive
  elements, in the order supplied. A level group is the level, the file tokens separated by
  spaces inside brackets, and the size of the level in parentheses.
\<close>

fun join_with :: "string \<Rightarrow> string list \<Rightarrow> string" where
  "join_with sep [] = []"
| "join_with sep [x] = x"
| "join_with sep (x # y # ys) = x @ sep @ join_with sep (y # ys)"

definition level_group :: "ext \<Rightarrow> LevelInfo \<Rightarrow> string" where
  "level_group X l =
     ''L'' @ fmt_d (LevelInfo.Level l) @ '' [''
       @ join_with '' '' (map (\<lambda>t. FileNum_String X (TableInfo.FileNum t)) (LevelInfo.Tables l))
       @ ''] ('' @ humanize_Uint64 X (tablesTotalSize (LevelInfo.Tables l)) @ '')''"

definition ingested_group :: "ext \<Rightarrow> IngestedTable \<Rightarrow> string" where
  "ingested_group X t =
     '' L'' @ fmt_d (IngestedTable.Level t) @ '':'' @ FileNum_String X (TableInfo.FileNum t)
       @ '' ('' @ humanize_Uint64 X (Size t) @ '')''"

text \<open>
  An instance of the collaborators, to run the renderings on concrete payloads: sizes
  written out in bytes, file numbers as six decimal digits, and a conversion that saturates.
\<close>

definition fmt_06d :: "nat \<Rightarrow> string" where
  "fmt_06d n = replicate (6 - length (fmt_nat n)) CHR ''0'' @ fmt_nat n"

definition saturating :: "float64 \<Rightarrow> 64 word" where
  "saturating x =
     (case x of
        Finite q \<Rightarrow> (if q < 0 then 0 else - 1)
      | PosInf \<Rightarrow> - 1
      | NegInf \<Rightarrow> 0
      | NaN \<Rightarrow> 0)"

definition ext0 :: ext where
  "ext0 = \<lparr>humanize_Uint64 = (\<lambda>w. fmt_nat (unat w) @ '' B''),
           FileNum_String = (\<lambda>w. fmt_06d (unat w)),
           uint64_unrepresentable = saturating\<rparr>"

subsection \<open>Example values\<close>

text \<open>
  A completed compaction of one file of level 0 into one file of level 1 in one
  second, and one payload of each other kind; the listener with no slot set
  (\<^verbatim>\<open>EventListener{}\<close>), and a logger that appends each call to a list.
\<close>

definition example_compaction :: CompactionInfo where
  "example_compaction =
     \<lparr>CompactionInfo.JobID = 7, CompactionInfo.Reason = ''default'',
      CompactionInfo.Input =
        [\<lparr>LevelInfo.Level = 0, LevelInfo.Tables = [\<lparr>TableInfo.FileNum = 100, Size = 1000\<rparr>]\<rparr>],
      CompactionInfo.Output =
        \<lparr>LevelInfo.Level = 1, LevelInfo.Tables = [\<lparr>TableInfo.FileNum = 101, Size = 900\<rparr>]\<rparr>,
      CompactionInfo.Duration = 1000000000, CompactionInfo.Done = True,
      CompactionInfo.Err = None\<rparr>"

definition example_flush :: FlushInfo where
  "example_flush =
     \<lparr>FlushInfo.JobID = 8, FlushInfo.Reason = ''flushing'', FlushInfo.Input = 1,
      FlushInfo.Output = [\<lparr>TableInfo.FileNum = 102, Size = 2048\<rparr>],
      FlushInfo.Duration = 500000000, FlushInfo.Done = True, FlushInfo.Err = None\<rparr>"

definition example_manifest_create :: ManifestCreateInfo where
  "example_manifest_create =
     \<lparr>ManifestCreateInfo.JobID = 1, ManifestCreateInfo.Path = ''db/MANIFEST-000001'',
      ManifestCreateInfo.FileNum = 1, ManifestCreateInfo.Err = None\<rparr>"

definition example_manifest_delete :: ManifestDeleteInfo where
  "example_manifest_delete =
     \<lparr>ManifestDeleteInfo.JobID = 2, ManifestDeleteInfo.Path = ''db/MANIFEST-000001'',
      ManifestDeleteInfo.FileNum = 1, ManifestDeleteInfo.Err = None\<rparr>"

definition example_table_create :: TableCreateInfo where
  "example_table_create =
     \<lparr>TableCreateInfo.JobID = 8, TableCreateInfo.Reason = ''flushing'',
      TableCreateInfo.Path = ''db/000102.sst'', TableCreateInfo.FileNum = 102\<rparr>"

definition example_table_delete :: TableDeleteInfo where
  "example_table_delete =
     \<lparr>TableDeleteInfo.JobID = 7, TableDeleteInfo.Path = ''db/000100.sst'',
      TableDeleteInfo.FileNum = 100, TableDeleteInfo.Err = None\<rparr>"

definition example_ingest :: TableIngestInfo where
  "example_ingest =
     \<lparr>TableIngestInfo.JobID = 9,
      TableIngestInfo.Tables =
        [\<lparr>TableInfo.FileNum = 200, Size = 4096, IngestedTable.Level = 6\<rparr>,
         \<lparr>TableInfo.FileNum = 201, Size = 512, IngestedTable.Level = 0\<rparr>],
      GlobalSeqNum = 33, TableIngestInfo.Err = None\<rparr>"

definition example_wal_create :: WALCreateInfo where
  "example_wal_create =
     \<lparr>WALCreateInfo.JobID = 3, WALCreateInfo.Path = ''db/000005.log'',
      WALCreateInfo.FileNum = 5, RecycledFileNum = 0, WALCreateInfo.Err = None\<rparr>"

definition example_wal_delete :: WALDeleteInfo where
  "example_wal_delete =
     \<lparr>WALDeleteInfo.JobID = 4, WALDeleteInfo.Path = ''db/000004.log'',
      WALDeleteInfo.FileNum = 4, WALDeleteInfo.Err = None\<rparr>"

definition example_stall :: WriteStallBeginInfo where
  "example_stall = \<lparr>WriteStallBeginInfo.Reason = ''memtable count limit reached''\<rparr>"

definition EventListener_zero :: "'w EventListener" where
  "EventListener_zero =
     \<lparr>BackgroundError = None, CompactionBegin = None, CompactionEnd = None, FlushBegin = None,
      FlushEnd = None, ManifestCreated = None, ManifestDeleted = None, TableCreated = None,
      TableDeleted = None, TableIngested = None, TableStatsLoaded = None, WALCreated = None,
      WALDeleted = None, WriteStallBegin = None, WriteStallEnd = None\<rparr>"

definition list_logger :: "(string \<times> arg list) list Logger" where
  "list_logger = \<lparr>Infof = (\<lambda>format args w. Some (w @ [(format, args)]))\<rparr>"

section \<open>Properties\<close>

subsection \<open>Auxiliary facts\<close>

lemma plain_Nil: "plain [] = []"
  by (simp add: plain_def)

lemma plain_Cons: "plain (p # ps) = piece_text p @ plain ps"
  by (simp add: plain_def)

lemma plain_append: "plain (ps @ qs) = plain ps @ plain qs"
  by (simp add: plain_def)

lemma digit_char_mem: "d < 10 \<Longrightarrow> digit_char d \<in> decimal_digits"
  unfolding digit_char_def decimal_digits_def by (rule nth_mem) simp

lemma fmt_nat_digits: "set (fmt_nat n) \<subseteq> decimal_digits"
proof (induction n rule: fmt_nat.induct)
  case (1 n)
  show ?case
  proof (cases "n < 10")
    case True
    have "fmt_nat n = [digit_char n]"
      using True by (subst fmt_nat.simps) simp
    then show ?thesis
      using digit_char_mem [OF True] by simp
  next
    case False
    have eq: "fmt_nat n = fmt_nat (n div 10) @ [digit_char (n mod 10)]"
      using False by (subst fmt_nat.simps) simp
    have hd: "set (fmt_nat (n div 10)) \<subseteq> decimal_digits"
      using 1 False by simp
    have lst: "digit_char (n mod 10) \<in> decimal_digits"
      by (rule digit_char_mem) simp
    show ?thesis
      unfolding eq using hd lst by simp
  qed
qed

lemma fmt_d_chars: "set (fmt_d i) \<subseteq> insert CHR ''-'' decimal_digits"
  using fmt_nat_digits [of "nat i"] fmt_nat_digits [of "nat (- i)"]
  by (cases "i < 0") (simp_all add: fmt_d_def subset_insertI2)

lemma zero_digit: "CHR ''0'' \<in> decimal_digits"
  by (simp add: decimal_digits_def)

lemma ext0_tokens: "set (FileNum_String ext0 n) \<subseteq> decimal_digits"
  using fmt_nat_digits [of "unat n"] zero_digit
  by (simp add: ext0_def fmt_06d_def set_replicate_conv_if)

lemma not_sublist_char: "c \<in> set xs \<Longrightarrow> c \<notin> set ys \<Longrightarrow> \<not> sublist xs ys"
  using set_mono_sublist [of xs ys] by (simp only: subset_eq) metis

lemma letters_not_digits:
  "CHR ''u'' \<notin> decimal_digits" "CHR ''p'' \<notin> decimal_digits" "CHR ''y'' \<notin> decimal_digits"
  by (simp_all add: decimal_digits_def)

lemma fmt_d_no: "c \<noteq> CHR ''-'' \<Longrightarrow> c \<notin> decimal_digits \<Longrightarrow> c \<notin> set (fmt_d i)"
  using fmt_d_chars [of i] by (simp only: subset_eq Ball_def insert_iff) metis

lemma token_no: "set tok \<subseteq> decimal_digits \<Longrightarrow> c \<notin> decimal_digits \<Longrightarrow> c \<notin> set tok"
  by (simp only: subset_eq Ball_def) metis

lemma sublist_appendR: "sublist xs zs \<Longrightarrow> sublist xs (ys @ zs)"
  by (metis append.assoc sublist_def)

lemma error_shapeI:
  assumes "r = ps @ [Unsafe e]" "list_all is_safe ps" "plain ps = pre @ suf"
    and "sublist ''error'' suf" and "c \<in> set ''output rate''" and "c \<notin> set (pre @ suf)"
  shows "error_shape r e"
  unfolding error_shape_def using assms
  by (simp add: sublist_appendR not_sublist_char [where c = c])

lemma CompactionInfo_error_shape:
  assumes "CompactionInfo.Err i = Some e"
  shows "error_shape (CompactionInfo_SafeFormat X i) e"
proof -
  have r: "CompactionInfo_SafeFormat X i
             = [Safe ''[JOB '', Safe (fmt_d (CompactionInfo.JobID i)), Safe ''] compaction to L'', Safe (fmt_d (LevelInfo.Level (CompactionInfo.Output i))), Safe '' error: ''] @ [Unsafe e]"
    using assms by (simp add: CompactionInfo_SafeFormat_def)
  show ?thesis
    by (rule error_shapeI [OF r, where c = "CHR ''u''" and suf = "'' error: ''"
          and pre = "''[JOB '' @ fmt_d (CompactionInfo.JobID i) @ ''] compaction to L''
                   @ fmt_d (LevelInfo.Level (CompactionInfo.Output i))"])
       (simp_all add: plain_def sublist_Cons_right fmt_d_no letters_not_digits)
qed

lemma FlushInfo_error_shape:
  assumes "FlushInfo.Err i = Some e"
  shows "error_shape (FlushInfo_SafeFormat X i) e"
proof -
  have r: "FlushInfo_SafeFormat X i
             = [Safe ''[JOB '', Safe (fmt_d (FlushInfo.JobID i)), Safe ''] flush error: ''] @ [Unsafe e]"
    using assms by (simp add: FlushInfo_SafeFormat_def)
  show ?thesis
    by (rule error_shapeI [OF r, where c = "CHR ''p''" and suf = "''] flush error: ''"
          and pre = "''[JOB '' @ fmt_d (FlushInfo.JobID i)"])
       (simp_all add: plain_def sublist_Cons_right fmt_d_no letters_not_digits)
qed

lemma ManifestCreateInfo_error_shape:
  assumes "ManifestCreateInfo.Err i = Some e"
  shows "error_shape (ManifestCreateInfo_SafeFormat X i) e"
proof -
  have r: "ManifestCreateInfo_SafeFormat X i
             = [Safe ''[JOB '', Safe (fmt_d (ManifestCreateInfo.JobID i)), Safe ''] MANIFEST create error: ''] @ [Unsafe e]"
    using assms by (simp add: ManifestCreateInfo_SafeFormat_def)
  show ?thesis
    by (rule error_shapeI [OF r, where c = "CHR ''u''" and suf = "''] MANIFEST create error: ''"
          and pre = "''[JOB '' @ fmt_d (ManifestCreateInfo.JobID i)"])
       (simp_all add: plain_def sublist_Cons_right fmt_d_no letters_not_digits)
qed

lemma ManifestDeleteInfo_error_shape:
  assumes "ManifestDeleteInfo.Err i = Some e"
  shows "error_shape (ManifestDeleteInfo_SafeFormat X i) e"
proof -
  have r: "ManifestDeleteInfo_SafeFormat X i
             = [Safe ''[JOB '', Safe (fmt_d (ManifestDeleteInfo.JobID i)), Safe ''] MANIFEST delete error: ''] @ [Unsafe e]"
    using assms by (simp add: ManifestDeleteInfo_SafeFormat_def)
  show ?thesis
    by (rule error_shapeI [OF r, where c = "CHR ''u''" and suf = "''] MANIFEST delete error: ''"
          and pre = "''[JOB '' @ fmt_d (ManifestDeleteInfo.JobID i)"])
       (simp_all add: plain_def sublist_Cons_right fmt_d_no letters_not_digits)
qed

lemma TableIngestInfo_error_shape:
  assumes "TableIngestInfo.Err i = Some e"
  shows "error_shape (TableIngestInfo_SafeFormat X i) e"
proof -
  have r: "TableIngestInfo_SafeFormat X i
             = [Safe ''[JOB '', Safe (fmt_d (TableIngestInfo.JobID i)), Safe ''] ingest error: ''] @ [Unsafe e]"
    using assms by (simp add: TableIngestInfo_SafeFormat_def)
  show ?thesis
    by (rule error_shapeI [OF r, where c = "CHR ''u''" and suf = "''] ingest error: ''"
          and pre = "''[JOB '' @ fmt_d (TableIngestInfo.JobID i)"])
       (simp_all add: plain_def sublist_Cons_right fmt_d_no letters_not_digits)
qed

lemma WALCreateInfo_error_shape:
  assumes "WALCreateInfo.Err i = Some e"
  shows "error_shape (WALCreateInfo_SafeFormat X i) e"
proof -
  have r: "WALCreateInfo_SafeFormat X i
             = [Safe ''[JOB '', Safe (fmt_d (WALCreateInfo.JobID i)), Safe ''] WAL create error: ''] @ [Unsafe e]"
    using assms by (simp add: WALCreateInfo_SafeFormat_def)
  show ?thesis
    by (rule error_shapeI [OF r, where c = "CHR ''u''" and suf = "''] WAL create error: ''"
          and pre = "''[JOB '' @ fmt_d (WALCreateInfo.JobID i)"])
       (simp_all add: plain_def sublist_Cons_right fmt_d_no letters_not_digits)
qed

lemma WALDeleteInfo_error_shape:
  assumes "WALDeleteInfo.Err i = Some e"
  shows "error_shape (WALDeleteInfo_SafeFormat X i) e"
proof -
  have r: "WALDeleteInfo_SafeFormat X i
             = [Safe ''[JOB '', Safe (fmt_d (WALDeleteInfo.JobID i)), Safe ''] WAL delete error: ''] @ [Unsafe e]"
    using assms by (simp add: WALDeleteInfo_SafeFormat_def)
  show ?thesis
    by (rule error_shapeI [OF r, where c = "CHR ''u''" and suf = "''] WAL delete error: ''"
          and pre = "''[JOB '' @ fmt_d (WALDeleteInfo.JobID i)"])
       (simp_all add: plain_def sublist_Cons_right fmt_d_no letters_not_digits)
qed

lemma TableDeleteInfo_error_shape:
  assumes "TableDeleteInfo.Err i = Some e"
    and tok: "set (FileNum_String X (TableDeleteInfo.FileNum i)) \<subseteq> decimal_digits"
  shows "error_shape (TableDeleteInfo_SafeFormat X i) e"
proof -
  have r: "TableDeleteInfo_SafeFormat X i
             = [Safe ''[JOB '', Safe (fmt_d (TableDeleteInfo.JobID i)), Safe ''] sstable delete error '', Safe (FileNum_String X (TableDeleteInfo.FileNum i)), Safe '': ''] @ [Unsafe e]"
    using assms by (simp add: TableDeleteInfo_SafeFormat_def)
  show ?thesis
    by (rule error_shapeI [OF r, where c = "CHR ''u''" and suf = "''] sstable delete error '' @ FileNum_String X (TableDeleteInfo.FileNum i) @ '': ''"
          and pre = "''[JOB '' @ fmt_d (TableDeleteInfo.JobID i)"])
       (simp_all add: plain_def sublist_Cons_right fmt_d_no letters_not_digits token_no [OF tok])
qed

lemma join_with_Cons: "join_with sep (x # xs) = x @ concat (map (\<lambda>y. sep @ y) xs)"
  by (induction xs arbitrary: x) simp_all

lemma formatFileNums_from_pos:
  "0 < i \<Longrightarrow> formatFileNums_from X i buf ts
     = buf @ concat (map (\<lambda>t. '' '' @ FileNum_String X (TableInfo.FileNum t)) ts)"
  by (induction ts arbitrary: i buf) simp_all

lemma formatFileNums_join:
  "formatFileNums X ts = join_with '' '' (map (\<lambda>t. FileNum_String X (TableInfo.FileNum t)) ts)"
proof (cases ts)
  case Nil
  then show ?thesis by (simp add: formatFileNums_def)
next
  case (Cons t rest)
  then show ?thesis
    by (simp add: formatFileNums_def formatFileNums_from_pos join_with_Cons comp_def)
qed

lemma LevelInfo_plain: "plain (LevelInfo_safeFormat X l) = level_group X l"
  by (simp add: LevelInfo_safeFormat_def level_group_def plain_def formatFileNums_join)

lemma safeFormatInputs_from_pos:
  "0 < j \<Longrightarrow> plain (safeFormatInputs_from X j ls)
     = concat (map (\<lambda>l. '' + '' @ level_group X l) ls)"
  by (induction ls arbitrary: j) (simp_all add: plain_Nil plain_append plain_Cons LevelInfo_plain)

lemma safeFormatInputs_join:
  "plain (CompactionInfo_safeFormatInputs X i)
     = join_with '' + '' (map (level_group X) (CompactionInfo.Input i))"
proof (cases "CompactionInfo.Input i")
  case Nil
  then show ?thesis by (simp add: CompactionInfo_safeFormatInputs_def plain_Nil)
next
  case (Cons l rest)
  then show ?thesis
    by (simp add: CompactionInfo_safeFormatInputs_def plain_append LevelInfo_plain
          safeFormatInputs_from_pos join_with_Cons comp_def)
qed

lemma ingestedTables_from_pos:
  "0 < j \<Longrightarrow> plain (ingestedTables_from X j ts)
     = concat (map (\<lambda>t. '','' @ ingested_group X t) ts)"
  by (induction ts arbitrary: j) (simp_all add: plain_def ingested_group_def)

lemma ingestedTables_join:
  "plain (ingestedTables_from X 0 ts) = join_with '','' (map (ingested_group X) ts)"
proof (cases ts)
  case Nil
  then show ?thesis by (simp add: plain_Nil)
next
  case (Cons t rest)
  have "plain (ingestedTables_from X 0 (t # rest))
          = ingested_group X t @ plain (ingestedTables_from X (Suc 0) rest)"
    by (simp add: plain_def ingested_group_def)
  then show ?thesis using Cons
    by (simp add: ingestedTables_from_pos join_with_Cons comp_def)
qed

lemma default_steps:
  "\<And>l d. (if BackgroundError l = None then l\<lparr>BackgroundError := Some d\<rparr> else l)
     = l\<lparr>BackgroundError := Some (case BackgroundError l of None \<Rightarrow> d | Some h \<Rightarrow> h)\<rparr>"
  "\<And>l d. (if CompactionBegin l = None then l\<lparr>CompactionBegin := Some d\<rparr> else l)
     = l\<lparr>CompactionBegin := Some (case CompactionBegin l of None \<Rightarrow> d | Some h \<Rightarrow> h)\<rparr>"
  "\<And>l d. (if CompactionEnd l = None then l\<lparr>CompactionEnd := Some d\<rparr> else l)
     = l\<lparr>CompactionEnd := Some (case CompactionEnd l of None \<Rightarrow> d | Some h \<Rightarrow> h)\<rparr>"
  "\<And>l d. (if FlushBegin l = None then l\<lparr>FlushBegin := Some d\<rparr> else l)
     = l\<lparr>FlushBegin := Some (case FlushBegin l of None \<Rightarrow> d | Some h \<Rightarrow> h)\<rparr>"
  "\<And>l d. (if FlushEnd l = None then l\<lparr>FlushEnd := Some d\<rparr> else l)
     = l\<lparr>FlushEnd := Some (case FlushEnd l of None \<Rightarrow> d | Some h \<Rightarrow> h)\<rparr>"
  "\<And>l d. (if ManifestCreated l = None then l\<lparr>ManifestCreated := Some d\<rparr> else l)
     = l\<lparr>ManifestCreated := Some (case ManifestCreated l of None \<Rightarrow> d | Some h \<Rightarrow> h)\<rparr>"
  "\<And>l d. (if ManifestDeleted l = None then l\<lparr>ManifestDeleted := Some d\<rparr> else l)
     = l\<lparr>ManifestDeleted := Some (case ManifestDeleted l of None \<Rightarrow> d | Some h \<Rightarrow> h)\<rparr>"
  "\<And>l d. (if TableCreated l = None then l\<lparr>TableCreated := Some d\<rparr> else l)
     = l\<lparr>TableCreated := Some (case TableCreated l of None \<Rightarrow> d | Some h \<Rightarrow> h)\<rparr>"
  "\<And>l d. (if TableDeleted l = None then l\<lparr>TableDeleted := Some d\<rparr> else l)
     = l\<lparr>TableDeleted := Some (case TableDeleted l of None \<Rightarrow> d | Some h \<Rightarrow> h)\<rparr>"
  "\<And>l d. (if TableIngested l = None then l\<lparr>TableIngested := Some d\<rparr> else l)
     = l\<lparr>TableIngested := Some (case TableIngested l of None \<Rightarrow> d | Some h \<Rightarrow> h)\<rparr>"
  "\<And>l d. (if TableStatsLoaded l = None then l\<lparr>TableStatsLoaded := Some d\<rparr> else l)
     = l\<lparr>TableStatsLoaded := Some (case TableStatsLoaded l of None \<Rightarrow> d | Some h \<Rightarrow> h)\<rparr>"
  "\<And>l d. (if WALCreated l = None then l\<lparr>WALCreated := Some d\<rparr> else l)
     = l\<lparr>WALCreated := Some (case WALCreated l of None \<Rightarrow> d | Some h \<Rightarrow> h)\<rparr>"
  "\<And>l d. (if WALDeleted l = None then l\<lparr>WALDeleted := Some d\<rparr> else l)
     = l\<lparr>WALDeleted := Some (case WALDeleted l of None \<Rightarrow> d | Some h \<Rightarrow> h)\<rparr>"
  "\<And>l d. (if WriteStallBegin l = None then l\<lparr>WriteStallBegin := Some d\<rparr> else l)
     = l\<lparr>WriteStallBegin := Some (case WriteStallBegin l of None \<Rightarrow> d | Some h \<Rightarrow> h)\<rparr>"
  "\<And>l d. (if WriteStallEnd l = None then l\<lparr>WriteStallEnd := Some d\<rparr> else l)
     = l\<lparr>WriteStallEnd := Some (case WriteStallEnd l of None \<Rightarrow> d | Some h \<Rightarrow> h)\<rparr>"
  by (simp_all split: option.split)

lemma EnsureDefaults_eq:
  "EnsureDefaults logger l =
     l\<lparr>BackgroundError := Some (case BackgroundError l of None \<Rightarrow> (\<lambda>err.
           case logger of
             None \<Rightarrow> (\<lambda>w. None)
           | Some lg \<Rightarrow> Infof lg ''background error: %s'' [ErrorArg err]) | Some h \<Rightarrow> h),
       CompactionBegin := Some (case CompactionBegin l of None \<Rightarrow> (\<lambda>info w. Some w) | Some h \<Rightarrow> h),
       CompactionEnd := Some (case CompactionEnd l of None \<Rightarrow> (\<lambda>info w. Some w) | Some h \<Rightarrow> h),
       FlushBegin := Some (case FlushBegin l of None \<Rightarrow> (\<lambda>info w. Some w) | Some h \<Rightarrow> h),
       FlushEnd := Some (case FlushEnd l of None \<Rightarrow> (\<lambda>info w. Some w) | Some h \<Rightarrow> h),
       ManifestCreated := Some (case ManifestCreated l of None \<Rightarrow> (\<lambda>info w. Some w) | Some h \<Rightarrow> h),
       ManifestDeleted := Some (case ManifestDeleted l of None \<Rightarrow> (\<lambda>info w. Some w) | Some h \<Rightarrow> h),
       TableCreated := Some (case TableCreated l of None \<Rightarrow> (\<lambda>info w. Some w) | Some h \<Rightarrow> h),
       TableDeleted := Some (case TableDeleted l of None \<Rightarrow> (\<lambda>info w. Some w) | Some h \<Rightarrow> h),
       TableIngested := Some (case TableIngested l of None \<Rightarrow> (\<lambda>info w. Some w) | Some h \<Rightarrow> h),
       TableStatsLoaded := Some (case TableStatsLoaded l of None \<Rightarrow> (\<lambda>info w. Some w) | Some h \<Rightarrow> h),
       WALCreated := Some (case WALCreated l of None \<Rightarrow> (\<lambda>info w. Some w) | Some h \<Rightarrow> h),
       WALDeleted := Some (case WALDeleted l of None \<Rightarrow> (\<lambda>info w. Some w) | Some h \<Rightarrow> h),
       WriteStallBegin := Some (case WriteStallBegin l of None \<Rightarrow> (\<lambda>info w. Some w) | Some h \<Rightarrow> h),
       WriteStallEnd := Some (case WriteStallEnd l of None \<Rightarrow> (\<lambda>w. Some w) | Some h \<Rightarrow> h)\<rparr>"
  unfolding EnsureDefaults_def
  apply (simp only: default_steps)
  apply (simp add: Let_def)
  done

subsection \<open>Facts about the binary64 model\<close>

lemma pow2_powi: "pow2 k = 2 powi k"
  by (simp add: pow2_def power_int_def power_one_over inverse_eq_divide)

lemma pow2_pos: "0 < pow2 k"
  by (simp add: pow2_powi)

lemma pow2_mono: "a \<le> b \<Longrightarrow> pow2 a \<le> pow2 b"
  by (simp add: pow2_powi power_int_increasing)

lemma pow2_nat: "pow2 (int n) = 2 ^ n"
  by (simp add: pow2_def)

lemma bit_length_pos: "0 < n \<Longrightarrow> 0 < bit_length n"
  by (subst bit_length.simps) simp

lemma bit_length_lower: "0 < n \<Longrightarrow> 2 ^ (bit_length n - 1) \<le> n"
proof (induction n rule: bit_length.induct)
  case (1 n)
  show ?case
  proof (cases "n div 2 = 0")
    case True
    then have "bit_length (n div 2) = 0"
      by (simp add: bit_length.simps)
    then have "bit_length n = 1"
      using 1(2) by (subst bit_length.simps) simp
    then show ?thesis
      using 1(2) by simp
  next
    case False
    then have ih: "2 ^ (bit_length (n div 2) - 1) \<le> n div 2"
      using 1 by simp
    have pos: "0 < bit_length (n div 2)"
      using False by (simp add: bit_length_pos)
    have eq: "bit_length n = Suc (bit_length (n div 2))"
      using 1(2) by (subst bit_length.simps) simp
    have "2 ^ (bit_length n - 1) = 2 * 2 ^ (bit_length (n div 2) - 1)"
      using pos unfolding eq by (cases "bit_length (n div 2)") simp_all
    also have "\<dots> \<le> 2 * (n div 2)"
      using ih by simp
    also have "\<dots> \<le> n"
      by simp
    finally show ?thesis .
  qed
qed

lemma round_half_even_cases:
  "round_half_even x = \<lfloor>x\<rfloor> \<or> round_half_even x = \<lfloor>x\<rfloor> + 1"
  by (simp add: round_half_even_def Let_def)

lemma round_half_even_ge1: "1 \<le> x \<Longrightarrow> 1 \<le> round_half_even x"
proof -
  assume "1 \<le> x"
  then have "1 \<le> \<lfloor>x\<rfloor>"
    by simp
  then show ?thesis
    using round_half_even_cases [of x] by linarith
qed

lemma round_half_even_le: "of_int (round_half_even x) \<le> x + 1"
proof -
  have "round_half_even x \<le> \<lfloor>x\<rfloor> + 1"
    using round_half_even_cases [of x] by linarith
  then have "(of_int (round_half_even x) :: rat) \<le> of_int (\<lfloor>x\<rfloor> + 1)"
    by (simp only: of_int_le_iff)
  also have "\<dots> \<le> x + 1"
    by simp
  finally show ?thesis .
qed

lemma floor_log2_nat_lower:
  assumes "0 < n"
  shows "pow2 (floor_log2 (of_nat n)) \<le> of_nat n"
proof -
  have q: "quotient_of (of_nat n) = (int n, 1)"
    using quotient_of_int [of "int n"] by simp
  have one: "bit_length (Suc 0) = Suc 0"
    by (simp add: bit_length.simps)
  define k where "k = int (bit_length n) - 1"
  have fl: "floor_log2 (of_nat n) = (if pow2 k \<le> of_nat n then k else k - 1)"
    by (simp add: floor_log2_def q one k_def Let_def)
  show ?thesis
  proof (cases "pow2 k \<le> (of_nat n :: rat)")
    case True
    then show ?thesis
      by (simp add: fl)
  next
    case False
    have "k = int (bit_length n - 1)"
      using bit_length_pos [OF assms] by (simp add: k_def)
    then have "pow2 k = 2 ^ (bit_length n - 1)"
      by (simp add: pow2_nat)
    also have "\<dots> \<le> (of_nat n :: rat)"
      using bit_length_lower [OF assms]
      by (metis of_nat_le_iff of_nat_numeral of_nat_power)
    finally have "pow2 k \<le> of_nat n" .
    with False show ?thesis
      by simp
  qed
qed

lemma f64_round_nat_pos:
  assumes "0 < n" "n < 2 ^ 64"
  shows "\<exists>v. 0 < v \<and> f64_round (of_nat n) = Finite v"
proof -
  let ?q = "of_nat n :: rat"
  define e where "e = max (floor_log2 ?q - 52) (- 1074)"
  define m where "m = round_half_even (?q / pow2 e)"
  define v where "v = (of_int m :: rat) * pow2 e"
  have qpos: "0 < ?q" "1 \<le> ?q"
    using assms by simp_all
  have "pow2 (floor_log2 ?q - 52) \<le> pow2 (floor_log2 ?q)"
    by (rule pow2_mono) simp
  then have a: "pow2 (floor_log2 ?q - 52) \<le> ?q"
    using floor_log2_nat_lower [OF assms(1)] by simp
  have "pow2 (- 1074) \<le> pow2 0"
    by (rule pow2_mono) simp
  then have b: "pow2 (- 1074) \<le> ?q"
    using qpos by (simp add: pow2_def)
  have le: "pow2 e \<le> ?q"
    using a b by (simp add: e_def max_def)
  then have "1 \<le> ?q / pow2 e"
    using pow2_pos [of e] by (simp add: le_divide_eq)
  then have m1: "1 \<le> m"
    unfolding m_def by (rule round_half_even_ge1)
  then have vpos: "0 < v"
    using pow2_pos [of e] by (simp add: v_def)
  have "of_int m \<le> ?q / pow2 e + 1"
    unfolding m_def by (rule round_half_even_le)
  then have "v \<le> (?q / pow2 e + 1) * pow2 e"
    unfolding v_def using pow2_pos [of e] by (simp add: mult_right_mono)
  also have "\<dots> = ?q + pow2 e"
    using pow2_pos [of e] by (simp add: algebra_simps)
  also have "\<dots> \<le> 2 * ?q"
    using le by simp
  also have "\<dots> < 2 * 2 ^ 64"
    using assms(2)
    by (metis mult_strict_left_mono of_nat_less_iff of_nat_numeral of_nat_power
          zero_less_numeral)
  also have "\<dots> = pow2 65"
    by (simp add: pow2_def)
  also have "\<dots> \<le> pow2 1024"
    by (rule pow2_mono) simp
  finally have small: "\<not> pow2 1024 \<le> v"
    by simp
  have "f64_round ?q = Finite v"
    using qpos small
    by (simp add: f64_round_def Let_def e_def [symmetric] m_def [symmetric] v_def [symmetric])
  then show ?thesis
    using vpos by blast
qed

lemma f64_of_uint64_pos: "w \<noteq> 0 \<Longrightarrow> \<exists>v. 0 < v \<and> f64_of_uint64 w = Finite v"
proof -
  assume "w \<noteq> 0"
  then have "0 < unat w"
    by (simp add: unat_gt_0)
  moreover have "unat w < 2 ^ 64"
    using unsigned_less [of w, where 'a = nat] by simp
  ultimately show ?thesis
    unfolding f64_of_uint64_def by (rule f64_round_nat_pos)
qed

lemma f64_of_uint64_zero: "f64_of_uint64 0 = Finite 0"
  by (simp add: f64_of_uint64_def f64_round_def)

lemma Duration_Seconds_zero: "Duration_Seconds 0 = Finite 0"
  by code_simp

lemma rate_quotient_zero_duration:
  "f64_div (f64_of_uint64 w) (Duration_Seconds 0) = (if w = 0 then NaN else PosInf)"
  using f64_of_uint64_pos [of w] by (auto simp: Duration_Seconds_zero f64_of_uint64_zero)

lemma outputRate_zero_duration:
  "outputRate X w 0 = uint64_unrepresentable X (if w = 0 then NaN else PosInf)"
  by (simp add: outputRate_def rate_quotient_zero_duration uint64_of_f64_def)

subsection \<open>The error shape\<close>

text \<open>
  Claim C1. For every \<^verbatim>\<open>CompactionInfo\<close>, \<^verbatim>\<open>FlushInfo\<close>,
  \<^verbatim>\<open>ManifestCreateInfo\<close>, \<^verbatim>\<open>ManifestDeleteInfo\<close>, \<^verbatim>\<open>TableDeleteInfo\<close>,
  \<^verbatim>\<open>WALCreateInfo\<close>, \<^verbatim>\<open>WALDeleteInfo\<close> and \<^verbatim>\<open>TableIngestInfo\<close> whose
  \<^verbatim>\<open>Err\<close> is set, the rendering has the error shape: its text contains the word
  ``error'' and no ``output rate'', and it ends with the message of the error, the only
  piece that is not safe. The payload is arbitrary otherwise, so \<^verbatim>\<open>Done\<close>, the
  duration and the tables have no influence; setting \<^verbatim>\<open>Done\<close> and the duration of a
  failed compaction or flush leaves the rendering as it is. The text of a failed table
  deletion contains the file number, which is taken to be written in decimal digits.
\<close>

theorem error_dominates_rendering:
  "(CompactionInfo.Err ci = Some e \<longrightarrow>
      error_shape (CompactionInfo_SafeFormat X ci) e
      \<and> CompactionInfo_SafeFormat X (ci\<lparr>CompactionInfo.Done := d, CompactionInfo.Duration := t\<rparr>)
          = CompactionInfo_SafeFormat X ci)
   \<and> (FlushInfo.Err fi = Some e \<longrightarrow>
      error_shape (FlushInfo_SafeFormat X fi) e
      \<and> FlushInfo_SafeFormat X (fi\<lparr>FlushInfo.Done := d, FlushInfo.Duration := t\<rparr>)
          = FlushInfo_SafeFormat X fi)
   \<and> (ManifestCreateInfo.Err mc = Some e \<longrightarrow> error_shape (ManifestCreateInfo_SafeFormat X mc) e)
   \<and> (ManifestDeleteInfo.Err md = Some e \<longrightarrow> error_shape (ManifestDeleteInfo_SafeFormat X md) e)
   \<and> (TableDeleteInfo.Err td = Some e
        \<and> set (FileNum_String X (TableDeleteInfo.FileNum td)) \<subseteq> decimal_digits \<longrightarrow>
      error_shape (TableDeleteInfo_SafeFormat X td) e)
   \<and> (WALCreateInfo.Err wc = Some e \<longrightarrow> error_shape (WALCreateInfo_SafeFormat X wc) e)
   \<and> (WALDeleteInfo.Err wd = Some e \<longrightarrow> error_shape (WALDeleteInfo_SafeFormat X wd) e)
   \<and> (TableIngestInfo.Err ti = Some e \<longrightarrow> error_shape (TableIngestInfo_SafeFormat X ti) e)"
proof (intro conjI impI)
  assume "CompactionInfo.Err ci = Some e"
  then show "CompactionInfo_SafeFormat X (ci\<lparr>CompactionInfo.Done := d, CompactionInfo.Duration := t\<rparr>)
          = CompactionInfo_SafeFormat X ci"
    by (simp add: CompactionInfo_SafeFormat_def)
next
  assume "FlushInfo.Err fi = Some e"
  then show "FlushInfo_SafeFormat X (fi\<lparr>FlushInfo.Done := d, FlushInfo.Duration := t\<rparr>)
          = FlushInfo_SafeFormat X fi"
    by (simp add: FlushInfo_SafeFormat_def)
next
  assume "TableDeleteInfo.Err td = Some e
        \<and> set (FileNum_String X (TableDeleteInfo.FileNum td)) \<subseteq> decimal_digits"
  then show "error_shape (TableDeleteInfo_SafeFormat X td) e"
    by (simp add: TableDeleteInfo_error_shape)
qed (simp_all add: CompactionInfo_error_shape FlushInfo_error_shape
      ManifestCreateInfo_error_shape ManifestDeleteInfo_error_shape WALCreateInfo_error_shape
      WALDeleteInfo_error_shape TableIngestInfo_error_shape)

theorem error_dominates_rendering_witness:
  "error_shape
     (CompactionInfo_SafeFormat ext0 (example_compaction\<lparr>CompactionInfo.Err := Some ''disk full''\<rparr>))
     ''disk full''
   \<and> CompactionInfo_SafeFormat ext0
        (example_compaction\<lparr>CompactionInfo.Err := Some ''disk full'',
           CompactionInfo.Done := False, CompactionInfo.Duration := 0\<rparr>)
      = CompactionInfo_SafeFormat ext0 (example_compaction\<lparr>CompactionInfo.Err := Some ''disk full''\<rparr>)
   \<and> error_shape
        (FlushInfo_SafeFormat ext0 (example_flush\<lparr>FlushInfo.Err := Some ''disk full''\<rparr>))
        ''disk full''
   \<and> FlushInfo_SafeFormat ext0
        (example_flush\<lparr>FlushInfo.Err := Some ''disk full'',
           FlushInfo.Done := False, FlushInfo.Duration := 0\<rparr>)
      = FlushInfo_SafeFormat ext0 (example_flush\<lparr>FlushInfo.Err := Some ''disk full''\<rparr>)
   \<and> error_shape
        (ManifestCreateInfo_SafeFormat ext0
           (example_manifest_create\<lparr>ManifestCreateInfo.Err := Some ''disk full''\<rparr>))
        ''disk full''
   \<and> error_shape
        (ManifestDeleteInfo_SafeFormat ext0
           (example_manifest_delete\<lparr>ManifestDeleteInfo.Err := Some ''disk full''\<rparr>))
        ''disk full''
   \<and> error_shape
        (TableDeleteInfo_SafeFormat ext0
           (example_table_delete\<lparr>TableDeleteInfo.Err := Some ''disk full''\<rparr>))
        ''disk full''
   \<and> error_shape
        (WALCreateInfo_SafeFormat ext0 (example_wal_create\<lparr>WALCreateInfo.Err := Some ''disk full''\<rparr>))
        ''disk full''
   \<and> error_shape
        (WALDeleteInfo_SafeFormat ext0 (example_wal_delete\<lparr>WALDeleteInfo.Err := Some ''disk full''\<rparr>))
        ''disk full''
   \<and> error_shape
        (TableIngestInfo_SafeFormat ext0 (example_ingest\<lparr>TableIngestInfo.Err := Some ''disk full''\<rparr>))
        ''disk full''"
  using error_dominates_rendering
    [where X = ext0 and e = "''disk full''" and d = False and t = 0
       and ci = "example_compaction\<lparr>CompactionInfo.Err := Some ''disk full''\<rparr>"
       and fi = "example_flush\<lparr>FlushInfo.Err := Some ''disk full''\<rparr>"
       and mc = "example_manifest_create\<lparr>ManifestCreateInfo.Err := Some ''disk full''\<rparr>"
       and md = "example_manifest_delete\<lparr>ManifestDeleteInfo.Err := Some ''disk full''\<rparr>"
       and td = "example_table_delete\<lparr>TableDeleteInfo.Err := Some ''disk full''\<rparr>"
       and wc = "example_wal_create\<lparr>WALCreateInfo.Err := Some ''disk full''\<rparr>"
       and wd = "example_wal_delete\<lparr>WALDeleteInfo.Err := Some ''disk full''\<rparr>"
       and ti = "example_ingest\<lparr>TableIngestInfo.Err := Some ''disk full''\<rparr>"]
    ext0_tokens
  by simp

subsection \<open>What is tagged as sensitive\<close>

text \<open>
  Claim C3 says that the free-form \<^verbatim>\<open>Path\<close>, \<^verbatim>\<open>Reason\<close> and \<^verbatim>\<open>Err\<close> fields
  reach the redaction boundary tagged as sensitive, the \<^verbatim>\<open>Reason\<close> of
  \<^verbatim>\<open>TableCreateInfo\<close> and \<^verbatim>\<open>WriteStallBeginInfo\<close> in particular. The two
  \<^verbatim>\<open>SafeFormat\<close> methods wrap the reason in \<^verbatim>\<open>redact.Safe\<close>: in the rendering
  of a table creation with the reason ``flushing'' and of a write stall, the reason is a
  safe piece and no piece is unsafe.
\<close>

theorem reason_tagged_sensitive_counterexample:
  "Unsafe ''flushing'' \<notin> set (TableCreateInfo_SafeFormat ext0 example_table_create)
   \<and> Safe ''flushing'' \<in> set (TableCreateInfo_SafeFormat ext0 example_table_create)
   \<and> Unsafe ''memtable count limit reached'' \<notin> set (WriteStallBeginInfo_SafeFormat example_stall)
   \<and> Safe ''memtable count limit reached'' \<in> set (WriteStallBeginInfo_SafeFormat example_stall)"
  by (simp add: TableCreateInfo_SafeFormat_def WriteStallBeginInfo_SafeFormat_def
        example_table_create_def example_stall_def)

text \<open>
  Claim C3, amended. A set \<^verbatim>\<open>Err\<close> is passed on unmodified and not wrapped as safe,
  in each of the eight payload types that have the field: it is the last piece, unsafe, and
  every piece before it is safe. The \<^verbatim>\<open>Reason\<close> of \<^verbatim>\<open>TableCreateInfo\<close> and of
  \<^verbatim>\<open>WriteStallBeginInfo\<close> is passed on unmodified and wrapped as safe, as every other
  piece of these two renderings. A \<^verbatim>\<open>Path\<close> is not rendered at all, and neither is the
  \<^verbatim>\<open>Reason\<close> of \<^verbatim>\<open>CompactionInfo\<close> and \<^verbatim>\<open>FlushInfo\<close>: changing the field
  leaves the rendering as it is.
\<close>

theorem err_sensitive_reason_safe_path_absent:
  "(CompactionInfo.Err ci = Some e \<longrightarrow>
      last (CompactionInfo_SafeFormat X ci) = Unsafe e
      \<and> list_all is_safe (butlast (CompactionInfo_SafeFormat X ci)))
   \<and> (FlushInfo.Err fi = Some e \<longrightarrow>
      last (FlushInfo_SafeFormat X fi) = Unsafe e
      \<and> list_all is_safe (butlast (FlushInfo_SafeFormat X fi)))
   \<and> (ManifestCreateInfo.Err mc = Some e \<longrightarrow>
      last (ManifestCreateInfo_SafeFormat X mc) = Unsafe e
      \<and> list_all is_safe (butlast (ManifestCreateInfo_SafeFormat X mc)))
   \<and> (ManifestDeleteInfo.Err md = Some e \<longrightarrow>
      last (ManifestDeleteInfo_SafeFormat X md) = Unsafe e
      \<and> list_all is_safe (butlast (ManifestDeleteInfo_SafeFormat X md)))
   \<and> (TableDeleteInfo.Err td = Some e \<longrightarrow>
      last (TableDeleteInfo_SafeFormat X td) = Unsafe e
      \<and> list_all is_safe (butlast (TableDeleteInfo_SafeFormat X td)))
   \<and> (TableIngestInfo.Err ti = Some e \<longrightarrow>
      last (TableIngestInfo_SafeFormat X ti) = Unsafe e
      \<and> list_all is_safe (butlast (TableIngestInfo_SafeFormat X ti)))
   \<and> (WALCreateInfo.Err wc = Some e \<longrightarrow>
      last (WALCreateInfo_SafeFormat X wc) = Unsafe e
      \<and> list_all is_safe (butlast (WALCreateInfo_SafeFormat X wc)))
   \<and> (WALDeleteInfo.Err wd = Some e \<longrightarrow>
      last (WALDeleteInfo_SafeFormat X wd) = Unsafe e
      \<and> list_all is_safe (butlast (WALDeleteInfo_SafeFormat X wd)))
   \<and> Safe (TableCreateInfo.Reason tc) \<in> set (TableCreateInfo_SafeFormat X tc)
   \<and> list_all is_safe (TableCreateInfo_SafeFormat X tc)
   \<and> Safe (WriteStallBeginInfo.Reason ws) \<in> set (WriteStallBeginInfo_SafeFormat ws)
   \<and> list_all is_safe (WriteStallBeginInfo_SafeFormat ws)
   \<and> ManifestCreateInfo_SafeFormat X (mc\<lparr>ManifestCreateInfo.Path := p\<rparr>) = ManifestCreateInfo_SafeFormat X mc
   \<and> ManifestDeleteInfo_SafeFormat X (md\<lparr>ManifestDeleteInfo.Path := p\<rparr>) = ManifestDeleteInfo_SafeFormat X md
   \<and> TableCreateInfo_SafeFormat X (tc\<lparr>TableCreateInfo.Path := p\<rparr>) = TableCreateInfo_SafeFormat X tc
   \<and> TableDeleteInfo_SafeFormat X (td\<lparr>TableDeleteInfo.Path := p\<rparr>) = TableDeleteInfo_SafeFormat X td
   \<and> WALCreateInfo_SafeFormat X (wc\<lparr>WALCreateInfo.Path := p\<rparr>) = WALCreateInfo_SafeFormat X wc
   \<and> WALDeleteInfo_SafeFormat X (wd\<lparr>WALDeleteInfo.Path := p\<rparr>) = WALDeleteInfo_SafeFormat X wd
   \<and> CompactionInfo_SafeFormat X (ci\<lparr>CompactionInfo.Reason := r\<rparr>) = CompactionInfo_SafeFormat X ci
   \<and> FlushInfo_SafeFormat X (fi\<lparr>FlushInfo.Reason := r\<rparr>) = FlushInfo_SafeFormat X fi"
  by (intro conjI impI)
     (simp_all add: CompactionInfo_SafeFormat_def FlushInfo_SafeFormat_def
        ManifestCreateInfo_SafeFormat_def ManifestDeleteInfo_SafeFormat_def
        TableCreateInfo_SafeFormat_def TableDeleteInfo_SafeFormat_def
        TableIngestInfo_SafeFormat_def WALCreateInfo_SafeFormat_def WALDeleteInfo_SafeFormat_def
        WriteStallBeginInfo_SafeFormat_def CompactionInfo_safeFormatInputs_def Let_def
        split: option.split)

theorem err_sensitive_reason_safe_path_absent_witness:
  "last (CompactionInfo_SafeFormat ext0 (example_compaction\<lparr>CompactionInfo.Err := Some ''disk full''\<rparr>)) = Unsafe ''disk full''
   \<and> list_all is_safe (butlast (CompactionInfo_SafeFormat ext0 (example_compaction\<lparr>CompactionInfo.Err := Some ''disk full''\<rparr>)))
   \<and> last (FlushInfo_SafeFormat ext0 (example_flush\<lparr>FlushInfo.Err := Some ''disk full''\<rparr>)) = Unsafe ''disk full''
   \<and> list_all is_safe (butlast (FlushInfo_SafeFormat ext0 (example_flush\<lparr>FlushInfo.Err := Some ''disk full''\<rparr>)))
   \<and> last (ManifestCreateInfo_SafeFormat ext0 (example_manifest_create\<lparr>ManifestCreateInfo.Err := Some ''disk full''\<rparr>)) = Unsafe ''disk full''
   \<and> list_all is_safe (butlast (ManifestCreateInfo_SafeFormat ext0 (example_manifest_create\<lparr>ManifestCreateInfo.Err := Some ''disk full''\<rparr>)))
   \<and> last (ManifestDeleteInfo_SafeFormat ext0 (example_manifest_delete\<lparr>ManifestDeleteInfo.Err := Some ''disk full''\<rparr>)) = Unsafe ''disk full''
   \<and> list_all is_safe (butlast (ManifestDeleteInfo_SafeFormat ext0 (example_manifest_delete\<lparr>ManifestDeleteInfo.Err := Some ''disk full''\<rparr>)))
   \<and> last (TableDeleteInfo_SafeFormat ext0 (example_table_delete\<lparr>TableDeleteInfo.Err := Some ''disk full''\<rparr>)) = Unsafe ''disk full''
   \<and> list_all is_safe (butlast (TableDeleteInfo_SafeFormat ext0 (example_table_delete\<lparr>TableDeleteInfo.Err := Some ''disk full''\<rparr>)))
   \<and> last (TableIngestInfo_SafeFormat ext0 (example_ingest\<lparr>TableIngestInfo.Err := Some ''disk full''\<rparr>)) = Unsafe ''disk full''
   \<and> list_all is_safe (butlast (TableIngestInfo_SafeFormat ext0 (example_ingest\<lparr>TableIngestInfo.Err := Some ''disk full''\<rparr>)))
   \<and> last (WALCreateInfo_SafeFormat ext0 (example_wal_create\<lparr>WALCreateInfo.Err := Some ''disk full''\<rparr>)) = Unsafe ''disk full''
   \<and> list_all is_safe (butlast (WALCreateInfo_SafeFormat ext0 (example_wal_create\<lparr>WALCreateInfo.Err := Some ''disk full''\<rparr>)))
   \<and> last (WALDeleteInfo_SafeFormat ext0 (example_wal_delete\<lparr>WALDeleteInfo.Err := Some ''disk full''\<rparr>)) = Unsafe ''disk full''
   \<and> list_all is_safe (butlast (WALDeleteInfo_SafeFormat ext0 (example_wal_delete\<lparr>WALDeleteInfo.Err := Some ''disk full''\<rparr>)))
   \<and> Safe (TableCreateInfo.Reason example_table_create)
      \<in> set (TableCreateInfo_SafeFormat ext0 example_table_create)
   \<and> list_all is_safe (TableCreateInfo_SafeFormat ext0 example_table_create)
   \<and> Safe (WriteStallBeginInfo.Reason example_stall)
      \<in> set (WriteStallBeginInfo_SafeFormat example_stall)
   \<and> list_all is_safe (WriteStallBeginInfo_SafeFormat example_stall)
   \<and> ManifestCreateInfo_SafeFormat ext0 (example_manifest_create\<lparr>ManifestCreateInfo.Err := Some ''disk full'', ManifestCreateInfo.Path := ''elsewhere''\<rparr>)
      = ManifestCreateInfo_SafeFormat ext0 (example_manifest_create\<lparr>ManifestCreateInfo.Err := Some ''disk full''\<rparr>)
   \<and> ManifestDeleteInfo_SafeFormat ext0 (example_manifest_delete\<lparr>ManifestDeleteInfo.Err := Some ''disk full'', ManifestDeleteInfo.Path := ''elsewhere''\<rparr>)
      = ManifestDeleteInfo_SafeFormat ext0 (example_manifest_delete\<lparr>ManifestDeleteInfo.Err := Some ''disk full''\<rparr>)
   \<and> TableCreateInfo_SafeFormat ext0 (example_table_create\<lparr>TableCreateInfo.Path := ''elsewhere''\<rparr>)
      = TableCreateInfo_SafeFormat ext0 (example_table_create)
   \<and> TableDeleteInfo_SafeFormat ext0 (example_table_delete\<lparr>TableDeleteInfo.Err := Some ''disk full'', TableDeleteInfo.Path := ''elsewhere''\<rparr>)
      = TableDeleteInfo_SafeFormat ext0 (example_table_delete\<lparr>TableDeleteInfo.Err := Some ''disk full''\<rparr>)
   \<and> WALCreateInfo_SafeFormat ext0 (example_wal_create\<lparr>WALCreateInfo.Err := Some ''disk full'', WALCreateInfo.Path := ''elsewhere''\<rparr>)
      = WALCreateInfo_SafeFormat ext0 (example_wal_create\<lparr>WALCreateInfo.Err := Some ''disk full''\<rparr>)
   \<and> WALDeleteInfo_SafeFormat ext0 (example_wal_delete\<lparr>WALDeleteInfo.Err := Some ''disk full'', WALDeleteInfo.Path := ''elsewhere''\<rparr>)
      = WALDeleteInfo_SafeFormat ext0 (example_wal_delete\<lparr>WALDeleteInfo.Err := Some ''disk full''\<rparr>)
   \<and> CompactionInfo_SafeFormat ext0 (example_compaction\<lparr>CompactionInfo.Err := Some ''disk full'', CompactionInfo.Reason := ''manual''\<rparr>)
      = CompactionInfo_SafeFormat ext0 (example_compaction\<lparr>CompactionInfo.Err := Some ''disk full''\<rparr>)
   \<and> FlushInfo_SafeFormat ext0 (example_flush\<lparr>FlushInfo.Err := Some ''disk full'', FlushInfo.Reason := ''manual''\<rparr>)
      = FlushInfo_SafeFormat ext0 (example_flush\<lparr>FlushInfo.Err := Some ''disk full''\<rparr>)"
  using err_sensitive_reason_safe_path_absent
    [where X = ext0
       and e = "''disk full''"
       and p = "''elsewhere''"
       and r = "''manual''"
       and tc = example_table_create
       and ws = example_stall
       and ci = "example_compaction\<lparr>CompactionInfo.Err := Some ''disk full''\<rparr>"
       and fi = "example_flush\<lparr>FlushInfo.Err := Some ''disk full''\<rparr>"
       and mc = "example_manifest_create\<lparr>ManifestCreateInfo.Err := Some ''disk full''\<rparr>"
       and md = "example_manifest_delete\<lparr>ManifestDeleteInfo.Err := Some ''disk full''\<rparr>"
       and td = "example_table_delete\<lparr>TableDeleteInfo.Err := Some ''disk full''\<rparr>"
       and ti = "example_ingest\<lparr>TableIngestInfo.Err := Some ''disk full''\<rparr>"
       and wc = "example_wal_create\<lparr>WALCreateInfo.Err := Some ''disk full''\<rparr>"
       and wd = "example_wal_delete\<lparr>WALDeleteInfo.Err := Some ''disk full''\<rparr>"]
  by simp

subsection \<open>Defaults of the listener\<close>

text \<open>
  Claim C4. \<^verbatim>\<open>EnsureDefaults\<close> is idempotent: applied to its own result, also with
  another logger, it changes nothing. A slot that is set stays as it is, and after one
  application every slot is set.
\<close>

theorem EnsureDefaults_idempotent:
  "EnsureDefaults other (EnsureDefaults logger l) = EnsureDefaults logger l
   \<and> (BackgroundError l \<noteq> None \<longrightarrow> BackgroundError (EnsureDefaults logger l) = BackgroundError l)
   \<and> (CompactionBegin l \<noteq> None \<longrightarrow> CompactionBegin (EnsureDefaults logger l) = CompactionBegin l)
   \<and> (CompactionEnd l \<noteq> None \<longrightarrow> CompactionEnd (EnsureDefaults logger l) = CompactionEnd l)
   \<and> (FlushBegin l \<noteq> None \<longrightarrow> FlushBegin (EnsureDefaults logger l) = FlushBegin l)
   \<and> (FlushEnd l \<noteq> None \<longrightarrow> FlushEnd (EnsureDefaults logger l) = FlushEnd l)
   \<and> (ManifestCreated l \<noteq> None \<longrightarrow> ManifestCreated (EnsureDefaults logger l) = ManifestCreated l)
   \<and> (ManifestDeleted l \<noteq> None \<longrightarrow> ManifestDeleted (EnsureDefaults logger l) = ManifestDeleted l)
   \<and> (TableCreated l \<noteq> None \<longrightarrow> TableCreated (EnsureDefaults logger l) = TableCreated l)
   \<and> (TableDeleted l \<noteq> None \<longrightarrow> TableDeleted (EnsureDefaults logger l) = TableDeleted l)
   \<and> (TableIngested l \<noteq> None \<longrightarrow> TableIngested (EnsureDefaults logger l) = TableIngested l)
   \<and> (TableStatsLoaded l \<noteq> None \<longrightarrow> TableStatsLoaded (EnsureDefaults logger l) = TableStatsLoaded l)
   \<and> (WALCreated l \<noteq> None \<longrightarrow> WALCreated (EnsureDefaults logger l) = WALCreated l)
   \<and> (WALDeleted l \<noteq> None \<longrightarrow> WALDeleted (EnsureDefaults logger l) = WALDeleted l)
   \<and> (WriteStallBegin l \<noteq> None \<longrightarrow> WriteStallBegin (EnsureDefaults logger l) = WriteStallBegin l)
   \<and> (WriteStallEnd l \<noteq> None \<longrightarrow> WriteStallEnd (EnsureDefaults logger l) = WriteStallEnd l)
   \<and> BackgroundError (EnsureDefaults logger l) \<noteq> None
   \<and> CompactionBegin (EnsureDefaults logger l) \<noteq> None
   \<and> CompactionEnd (EnsureDefaults logger l) \<noteq> None
   \<and> FlushBegin (EnsureDefaults logger l) \<noteq> None
   \<and> FlushEnd (EnsureDefaults logger l) \<noteq> None
   \<and> ManifestCreated (EnsureDefaults logger l) \<noteq> None
   \<and> ManifestDeleted (EnsureDefaults logger l) \<noteq> None
   \<and> TableCreated (EnsureDefaults logger l) \<noteq> None
   \<and> TableDeleted (EnsureDefaults logger l) \<noteq> None
   \<and> TableIngested (EnsureDefaults logger l) \<noteq> None
   \<and> TableStatsLoaded (EnsureDefaults logger l) \<noteq> None
   \<and> WALCreated (EnsureDefaults logger l) \<noteq> None
   \<and> WALDeleted (EnsureDefaults logger l) \<noteq> None
   \<and> WriteStallBegin (EnsureDefaults logger l) \<noteq> None
   \<and> WriteStallEnd (EnsureDefaults logger l) \<noteq> None"
  by (auto simp: EnsureDefaults_eq)

theorem EnsureDefaults_idempotent_witness:
  "EnsureDefaults None (EnsureDefaults None (EnsureDefaults (Some list_logger) EventListener_zero))
     = EnsureDefaults None (EnsureDefaults (Some list_logger) EventListener_zero)
   \<and> BackgroundError (EnsureDefaults None (EnsureDefaults (Some list_logger) EventListener_zero))
       = BackgroundError (EnsureDefaults (Some list_logger) EventListener_zero)
   \<and> CompactionBegin (EnsureDefaults None (EnsureDefaults (Some list_logger) EventListener_zero))
       = CompactionBegin (EnsureDefaults (Some list_logger) EventListener_zero)
   \<and> CompactionEnd (EnsureDefaults None (EnsureDefaults (Some list_logger) EventListener_zero))
       = CompactionEnd (EnsureDefaults (Some list_logger) EventListener_zero)
   \<and> FlushBegin (EnsureDefaults None (EnsureDefaults (Some list_logger) EventListener_zero))
       = FlushBegin (EnsureDefaults (Some list_logger) EventListener_zero)
   \<and> FlushEnd (EnsureDefaults None (EnsureDefaults (Some list_logger) EventListener_zero))
       = FlushEnd (EnsureDefaults (Some list_logger) EventListener_zero)
   \<and> ManifestCreated (EnsureDefaults None (EnsureDefaults (Some list_logger) EventListener_zero))
       = ManifestCreated (EnsureDefaults (Some list_logger) EventListener_zero)
   \<and> ManifestDeleted (EnsureDefaults None (EnsureDefaults (Some list_logger) EventListener_zero))
       = ManifestDeleted (EnsureDefaults (Some list_logger) EventListener_zero)
   \<and> TableCreated (EnsureDefaults None (EnsureDefaults (Some list_logger) EventListener_zero))
       = TableCreated (EnsureDefaults (Some list_logger) EventListener_zero)
   \<and> TableDeleted (EnsureDefaults None (EnsureDefaults (Some list_logger) EventListener_zero))
       = TableDeleted (EnsureDefaults (Some list_logger) EventListener_zero)
   \<and> TableIngested (EnsureDefaults None (EnsureDefaults (Some list_logger) EventListener_zero))
       = TableIngested (EnsureDefaults (Some list_logger) EventListener_zero)
   \<and> TableStatsLoaded (EnsureDefaults None (EnsureDefaults (Some list_logger) EventListener_zero))
       = TableStatsLoaded (EnsureDefaults (Some list_logger) EventListener_zero)
   \<and> WALCreated (EnsureDefaults None (EnsureDefaults (Some list_logger) EventListener_zero))
       = WALCreated (EnsureDefaults (Some list_logger) EventListener_zero)
   \<and> WALDeleted (EnsureDefaults None (EnsureDefaults (Some list_logger) EventListener_zero))
       = WALDeleted (EnsureDefaults (Some list_logger) EventListener_zero)
   \<and> WriteStallBegin (EnsureDefaults None (EnsureDefaults (Some list_logger) EventListener_zero))
       = WriteStallBegin (EnsureDefaults (Some list_logger) EventListener_zero)
   \<and> WriteStallEnd (EnsureDefaults None (EnsureDefaults (Some list_logger) EventListener_zero))
       = WriteStallEnd (EnsureDefaults (Some list_logger) EventListener_zero)"
  using EnsureDefaults_idempotent
      [where l = "EnsureDefaults (Some list_logger) EventListener_zero" and logger = None
         and other = None]
    EnsureDefaults_idempotent
      [where l = EventListener_zero and logger = "Some list_logger" and other = None]
  by simp

text \<open>
  Claim C5. A slot the caller left unset holds, after \<^verbatim>\<open>EnsureDefaults\<close>, a callback
  that returns without a panic and leaves the state as it was, for every payload. The one
  exception is \<^verbatim>\<open>BackgroundError\<close>: its default hands the error to \<^verbatim>\<open>Infof\<close> of
  the logger supplied, with the format \<^verbatim>\<open>background error: %s\<close>, and does what the
  logger does.
\<close>

theorem EnsureDefaults_fills_with_no_ops:
  "(BackgroundError l = None \<longrightarrow>
      (\<exists>h. BackgroundError (EnsureDefaults (Some lg) l) = Some h
         \<and> (\<forall>err w. h err w = Infof lg ''background error: %s'' [ErrorArg err] w)))
   \<and> (CompactionBegin l = None \<longrightarrow>
      (\<exists>h. CompactionBegin (EnsureDefaults logger l) = Some h \<and> (\<forall>info w. h info w = Some w)))
   \<and> (CompactionEnd l = None \<longrightarrow>
      (\<exists>h. CompactionEnd (EnsureDefaults logger l) = Some h \<and> (\<forall>info w. h info w = Some w)))
   \<and> (FlushBegin l = None \<longrightarrow>
      (\<exists>h. FlushBegin (EnsureDefaults logger l) = Some h \<and> (\<forall>info w. h info w = Some w)))
   \<and> (FlushEnd l = None \<longrightarrow>
      (\<exists>h. FlushEnd (EnsureDefaults logger l) = Some h \<and> (\<forall>info w. h info w = Some w)))
   \<and> (ManifestCreated l = None \<longrightarrow>
      (\<exists>h. ManifestCreated (EnsureDefaults logger l) = Some h \<and> (\<forall>info w. h info w = Some w)))
   \<and> (ManifestDeleted l = None \<longrightarrow>
      (\<exists>h. ManifestDeleted (EnsureDefaults logger l) = Some h \<and> (\<forall>info w. h info w = Some w)))
   \<and> (TableCreated l = None \<longrightarrow>
      (\<exists>h. TableCreated (EnsureDefaults logger l) = Some h \<and> (\<forall>info w. h info w = Some w)))
   \<and> (TableDeleted l = None \<longrightarrow>
      (\<exists>h. TableDeleted (EnsureDefaults logger l) = Some h \<and> (\<forall>info w. h info w = Some w)))
   \<and> (TableIngested l = None \<longrightarrow>
      (\<exists>h. TableIngested (EnsureDefaults logger l) = Some h \<and> (\<forall>info w. h info w = Some w)))
   \<and> (TableStatsLoaded l = None \<longrightarrow>
      (\<exists>h. TableStatsLoaded (EnsureDefaults logger l) = Some h \<and> (\<forall>info w. h info w = Some w)))
   \<and> (WALCreated l = None \<longrightarrow>
      (\<exists>h. WALCreated (EnsureDefaults logger l) = Some h \<and> (\<forall>info w. h info w = Some w)))
   \<and> (WALDeleted l = None \<longrightarrow>
      (\<exists>h. WALDeleted (EnsureDefaults logger l) = Some h \<and> (\<forall>info w. h info w = Some w)))
   \<and> (WriteStallBegin l = None \<longrightarrow>
      (\<exists>h. WriteStallBegin (EnsureDefaults logger l) = Some h \<and> (\<forall>info w. h info w = Some w)))
   \<and> (WriteStallEnd l = None \<longrightarrow>
      (\<exists>h. WriteStallEnd (EnsureDefaults logger l) = Some h \<and> (\<forall>w. h w = Some w)))"
  by (simp add: EnsureDefaults_eq)

theorem EnsureDefaults_fills_with_no_ops_witness:
  "(\<exists>h. BackgroundError (EnsureDefaults (Some list_logger) (EventListener_zero :: (string \<times> arg list) list EventListener)) = Some h
      \<and> (\<forall>err w. h err w = Some (w @ [(''background error: %s'', [ErrorArg err])])))
   \<and> (\<exists>h. CompactionBegin (EnsureDefaults (Some list_logger) (EventListener_zero :: (string \<times> arg list) list EventListener)) = Some h
         \<and> (\<forall>info w. h info w = Some w))
   \<and> (\<exists>h. CompactionEnd (EnsureDefaults (Some list_logger) (EventListener_zero :: (string \<times> arg list) list EventListener)) = Some h
         \<and> (\<forall>info w. h info w = Some w))
   \<and> (\<exists>h. FlushBegin (EnsureDefaults (Some list_logger) (EventListener_zero :: (string \<times> arg list) list EventListener)) = Some h
         \<and> (\<forall>info w. h info w = Some w))
   \<and> (\<exists>h. FlushEnd (EnsureDefaults (Some list_logger) (EventListener_zero :: (string \<times> arg list) list EventListener)) = Some h
         \<and> (\<forall>info w. h info w = Some w))
   \<and> (\<exists>h. ManifestCreated (EnsureDefaults (Some list_logger) (EventListener_zero :: (string \<times> arg list) list EventListener)) = Some h
         \<and> (\<forall>info w. h info w = Some w))
   \<and> (\<exists>h. ManifestDeleted (EnsureDefaults (Some list_logger) (EventListener_zero :: (string \<times> arg list) list EventListener)) = Some h
         \<and> (\<forall>info w. h info w = Some w))
   \<and> (\<exists>h. TableCreated (EnsureDefaults (Some list_logger) (EventListener_zero :: (string \<times> arg list) list EventListener)) = Some h
         \<and> (\<forall>info w. h info w = Some w))
   \<and> (\<exists>h. TableDeleted (EnsureDefaults (Some list_logger) (EventListener_zero :: (string \<times> arg list) list EventListener)) = Some h
         \<and> (\<forall>info w. h info w = Some w))
   \<and> (\<exists>h. TableIngested (EnsureDefaults (Some list_logger) (EventListener_zero :: (string \<times> arg list) list EventListener)) = Some h
         \<and> (\<forall>info w. h info w = Some w))
   \<and> (\<exists>h. TableStatsLoaded (EnsureDefaults (Some list_logger) (EventListener_zero :: (string \<times> arg list) list EventListener)) = Some h
         \<and> (\<forall>info w. h info w = Some w))
   \<and> (\<exists>h. WALCreated (EnsureDefaults (Some list_logger) (EventListener_zero :: (string \<times> arg list) list EventListener)) = Some h
         \<and> (\<forall>info w. h info w = Some w))
   \<and> (\<exists>h. WALDeleted (EnsureDefaults (Some list_logger) (EventListener_zero :: (string \<times> arg list) list EventListener)) = Some h
         \<and> (\<forall>info w. h info w = Some w))
   \<and> (\<exists>h. WriteStallBegin (EnsureDefaults (Some list_logger) (EventListener_zero :: (string \<times> arg list) list EventListener)) = Some h
         \<and> (\<forall>info w. h info w = Some w))
   \<and> (\<exists>h. WriteStallEnd (EnsureDefaults (Some list_logger) (EventListener_zero :: (string \<times> arg list) list EventListener)) = Some h
         \<and> (\<forall>w. h w = Some w))"
  using EnsureDefaults_fills_with_no_ops
      [where l = "EventListener_zero :: (string \<times> arg list) list EventListener"
         and lg = list_logger and logger = "Some list_logger"]
  by (simp add: EventListener_zero_def list_logger_def)

subsection \<open>Shapes of the renderings\<close>

text \<open>
  Claim C7. For a compaction without error and with two or more input levels, the
  inputs are rendered as the level groups joined by \<^verbatim>\<open>" + "\<close>, in the order supplied;
  each group has its file tokens separated by single spaces inside the brackets, in the
  order supplied (\<open>level_group\<close>). The rendering starts with the job, the verb and
  these inputs, in progress and completed alike.
\<close>

theorem compaction_inputs_joined:
  "CompactionInfo.Err i = None \<Longrightarrow> 2 \<le> length (CompactionInfo.Input i) \<Longrightarrow>
     plain (CompactionInfo_safeFormatInputs X i)
       = join_with '' + '' (map (level_group X) (CompactionInfo.Input i))
     \<and> prefix (''[JOB '' @ fmt_d (CompactionInfo.JobID i)
                 @ (if CompactionInfo.Done i then ''] compacted '' else ''] compacting '')
                 @ join_with '' + '' (map (level_group X) (CompactionInfo.Input i)))
          (plain (CompactionInfo_SafeFormat X i))"
  by (simp add: safeFormatInputs_join CompactionInfo_SafeFormat_def Let_def
        plain_append plain_Cons plain_Nil)

theorem compaction_inputs_joined_witness:
  "plain (CompactionInfo_safeFormatInputs ext0 (example_compaction\<lparr>CompactionInfo.Input :=
       [\<lparr>LevelInfo.Level = 0, LevelInfo.Tables = [\<lparr>TableInfo.FileNum = 100, Size = 1000\<rparr>]\<rparr>,
        \<lparr>LevelInfo.Level = 1, LevelInfo.Tables =
           [\<lparr>TableInfo.FileNum = 50, Size = 700\<rparr>, \<lparr>TableInfo.FileNum = 51, Size = 800\<rparr>]\<rparr>]\<rparr>))
     = ''L0 [000100] (1000 B) + L1 [000050 000051] (1500 B)''
   \<and> prefix ''[JOB 7] compacted L0 [000100] (1000 B) + L1 [000050 000051] (1500 B)''
         (plain (CompactionInfo_SafeFormat ext0 (example_compaction\<lparr>CompactionInfo.Input :=
       [\<lparr>LevelInfo.Level = 0, LevelInfo.Tables = [\<lparr>TableInfo.FileNum = 100, Size = 1000\<rparr>]\<rparr>,
        \<lparr>LevelInfo.Level = 1, LevelInfo.Tables =
           [\<lparr>TableInfo.FileNum = 50, Size = 700\<rparr>, \<lparr>TableInfo.FileNum = 51, Size = 800\<rparr>]\<rparr>]\<rparr>)))"
proof -
  let ?i = "example_compaction\<lparr>CompactionInfo.Input :=
       [\<lparr>LevelInfo.Level = 0, LevelInfo.Tables = [\<lparr>TableInfo.FileNum = 100, Size = 1000\<rparr>]\<rparr>,
        \<lparr>LevelInfo.Level = 1, LevelInfo.Tables =
           [\<lparr>TableInfo.FileNum = 50, Size = 700\<rparr>, \<lparr>TableInfo.FileNum = 51, Size = 800\<rparr>]\<rparr>]\<rparr>"
  have err: "CompactionInfo.Err ?i = None"
    by (simp add: example_compaction_def)
  have two: "2 \<le> length (CompactionInfo.Input ?i)"
    by simp
  have inputs: "join_with '' + '' (map (level_group ext0) (CompactionInfo.Input ?i))
      = ''L0 [000100] (1000 B) + L1 [000050 000051] (1500 B)''"
    by code_simp
  have start: "''[JOB '' @ fmt_d (CompactionInfo.JobID ?i)
      @ (if CompactionInfo.Done ?i then ''] compacted '' else ''] compacting '')
      @ ''L0 [000100] (1000 B) + L1 [000050 000051] (1500 B)''
      = ''[JOB 7] compacted L0 [000100] (1000 B) + L1 [000050 000051] (1500 B)''"
    by code_simp
  show ?thesis
    using compaction_inputs_joined [OF err two, where X = ext0]
    unfolding inputs start .
qed

text \<open>
  Claim C8. For a flush without error the rendering starts with the job, the verb, the
  number of memtables and the word ``memtable'': in the singular when \<^verbatim>\<open>Input\<close> is 1,
  in the plural for every other value, zero included, in progress and completed alike.
\<close>

theorem flush_memtable_plural:
  "FlushInfo.Err i = None \<Longrightarrow>
     (FlushInfo.Input i = 1 \<longrightarrow>
        prefix (''[JOB '' @ fmt_d (FlushInfo.JobID i)
                  @ (if FlushInfo.Done i then ''] flushed '' else ''] flushing '')
                  @ fmt_d (FlushInfo.Input i) @ '' memtable to L0'')
          (plain (FlushInfo_SafeFormat X i)))
     \<and> (FlushInfo.Input i \<noteq> 1 \<longrightarrow>
        prefix (''[JOB '' @ fmt_d (FlushInfo.JobID i)
                  @ (if FlushInfo.Done i then ''] flushed '' else ''] flushing '')
                  @ fmt_d (FlushInfo.Input i) @ '' memtables to L0'')
          (plain (FlushInfo_SafeFormat X i)))"
  by (simp add: FlushInfo_SafeFormat_def Let_def plain_Cons plain_Nil)

theorem flush_memtable_plural_witness:
  "prefix ''[JOB 8] flushed 1 memtable to L0'' (plain (FlushInfo_SafeFormat ext0 example_flush))
   \<and> prefix ''[JOB 8] flushing 0 memtables to L0''
         (plain (FlushInfo_SafeFormat ext0
            (example_flush\<lparr>FlushInfo.Input := 0, FlushInfo.Done := False\<rparr>)))"
proof -
  let ?j = "example_flush\<lparr>FlushInfo.Input := 0, FlushInfo.Done := False\<rparr>"
  have err: "FlushInfo.Err example_flush = None" "FlushInfo.Err ?j = None"
    by (simp_all add: example_flush_def)
  have one: "FlushInfo.Input example_flush = 1" and other: "FlushInfo.Input ?j \<noteq> 1"
    by (simp_all add: example_flush_def)
  have singular: "''[JOB '' @ fmt_d (FlushInfo.JobID example_flush)
      @ (if FlushInfo.Done example_flush then ''] flushed '' else ''] flushing '')
      @ fmt_d (FlushInfo.Input example_flush) @ '' memtable to L0''
      = ''[JOB 8] flushed 1 memtable to L0''"
    by code_simp
  have plural: "''[JOB '' @ fmt_d (FlushInfo.JobID ?j)
      @ (if FlushInfo.Done ?j then ''] flushed '' else ''] flushing '')
      @ fmt_d (FlushInfo.Input ?j) @ '' memtables to L0''
      = ''[JOB 8] flushing 0 memtables to L0''"
    by code_simp
  have "prefix ''[JOB 8] flushed 1 memtable to L0'' (plain (FlushInfo_SafeFormat ext0 example_flush))"
    using flush_memtable_plural [OF err(1), where X = ext0] one
    unfolding singular by (simp only: simp_thms)
  moreover have "prefix ''[JOB 8] flushing 0 memtables to L0''
      (plain (FlushInfo_SafeFormat ext0 ?j))"
    using flush_memtable_plural [OF err(2), where X = ext0] other
    unfolding plural by (simp only: simp_thms)
  ultimately show ?thesis ..
qed

text \<open>
  Claim C9. For a WAL creation without error: when \<^verbatim>\<open>RecycledFileNum\<close> is zero the
  text does not contain ``recycled'' (the file number taken to be written in decimal
  digits), and when it is not zero the text contains \<^verbatim>\<open>(recycled n)\<close> with the token
  of the recycled file number.
\<close>

theorem wal_create_names_recycled_file:
  "WALCreateInfo.Err i = None \<Longrightarrow>
     (RecycledFileNum i = 0
        \<and> set (FileNum_String X (WALCreateInfo.FileNum i)) \<subseteq> decimal_digits \<longrightarrow>
        \<not> sublist ''recycled'' (plain (WALCreateInfo_SafeFormat X i)))
     \<and> (RecycledFileNum i \<noteq> 0 \<longrightarrow>
        sublist (''(recycled '' @ FileNum_String X (RecycledFileNum i) @ '')'')
          (plain (WALCreateInfo_SafeFormat X i)))"
proof (intro conjI impI)
  assume err: "WALCreateInfo.Err i = None"
    and zero: "RecycledFileNum i = 0
        \<and> set (FileNum_String X (WALCreateInfo.FileNum i)) \<subseteq> decimal_digits"
  have shape: "plain (WALCreateInfo_SafeFormat X i)
      = ''[JOB '' @ fmt_d (WALCreateInfo.JobID i) @ ''] WAL created ''
          @ FileNum_String X (WALCreateInfo.FileNum i)"
    using err zero by (simp add: WALCreateInfo_SafeFormat_def plain_def)
  have tok: "CHR ''y'' \<notin> set (FileNum_String X (WALCreateInfo.FileNum i))"
    using zero by (simp add: token_no letters_not_digits)
  show "\<not> sublist ''recycled'' (plain (WALCreateInfo_SafeFormat X i))"
    unfolding shape
    by (rule not_sublist_char [where c = "CHR ''y''"])
       (simp_all add: fmt_d_no letters_not_digits tok)
next
  assume err: "WALCreateInfo.Err i = None" and pos: "RecycledFileNum i \<noteq> 0"
  have shape: "plain (WALCreateInfo_SafeFormat X i)
      = (''[JOB '' @ fmt_d (WALCreateInfo.JobID i) @ ''] WAL created ''
          @ FileNum_String X (WALCreateInfo.FileNum i) @ '' '')
        @ (''(recycled '' @ FileNum_String X (RecycledFileNum i) @ '')'')"
    using err pos by (simp add: WALCreateInfo_SafeFormat_def plain_def)
  show "sublist (''(recycled '' @ FileNum_String X (RecycledFileNum i) @ '')'')
          (plain (WALCreateInfo_SafeFormat X i))"
    unfolding shape by (rule sublist_append_leftI)
qed

theorem wal_create_names_recycled_file_witness:
  "\<not> sublist ''recycled'' (plain (WALCreateInfo_SafeFormat ext0 example_wal_create))
   \<and> sublist ''(recycled 000004)''
         (plain (WALCreateInfo_SafeFormat ext0 (example_wal_create\<lparr>RecycledFileNum := 4\<rparr>)))"
proof -
  let ?j = "example_wal_create\<lparr>RecycledFileNum := 4\<rparr>"
  have err: "WALCreateInfo.Err example_wal_create = None" "WALCreateInfo.Err ?j = None"
    by (simp_all add: example_wal_create_def)
  have fresh: "RecycledFileNum example_wal_create = 0
      \<and> set (FileNum_String ext0 (WALCreateInfo.FileNum example_wal_create)) \<subseteq> decimal_digits"
    by (simp add: example_wal_create_def ext0_tokens)
  have recycled: "RecycledFileNum ?j \<noteq> 0"
    by simp
  have token: "''(recycled '' @ FileNum_String ext0 (RecycledFileNum ?j) @ '')''
      = ''(recycled 000004)''"
    by code_simp
  have "\<not> sublist ''recycled'' (plain (WALCreateInfo_SafeFormat ext0 example_wal_create))"
    using wal_create_names_recycled_file [OF err(1), where X = ext0] fresh
    by (simp only: simp_thms)
  moreover have "sublist ''(recycled 000004)'' (plain (WALCreateInfo_SafeFormat ext0 ?j))"
    using wal_create_names_recycled_file [OF err(2), where X = ext0] recycled
    unfolding token by (simp only: simp_thms)
  ultimately show ?thesis ..
qed

text \<open>
  Claim C10. For an ingestion without error the rendering does not depend on
  \<^verbatim>\<open>GlobalSeqNum\<close>: its text is the job and then, for each table in the order
  supplied, the level, the file number and the humanized size, the tables separated by
  commas.
\<close>

theorem ingest_omits_global_seqnum:
  "TableIngestInfo.Err i = None \<Longrightarrow>
     TableIngestInfo_SafeFormat X (i\<lparr>GlobalSeqNum := g\<rparr>) = TableIngestInfo_SafeFormat X i
     \<and> plain (TableIngestInfo_SafeFormat X i)
         = ''[JOB '' @ fmt_d (TableIngestInfo.JobID i) @ ''] ingested''
             @ join_with '','' (map (ingested_group X) (TableIngestInfo.Tables i))"
  by (simp add: TableIngestInfo_SafeFormat_def plain_append plain_Cons plain_Nil
        ingestedTables_join)

theorem ingest_omits_global_seqnum_witness:
  "TableIngestInfo_SafeFormat ext0 (example_ingest\<lparr>GlobalSeqNum := 34\<rparr>)
     = TableIngestInfo_SafeFormat ext0 example_ingest
   \<and> plain (TableIngestInfo_SafeFormat ext0 example_ingest)
       = ''[JOB 9] ingested L6:000200 (4096 B), L0:000201 (512 B)''"
proof -
  have err: "TableIngestInfo.Err example_ingest = None"
    by (simp add: example_ingest_def)
  have tables: "''[JOB '' @ fmt_d (TableIngestInfo.JobID example_ingest) @ ''] ingested''
      @ join_with '','' (map (ingested_group ext0) (TableIngestInfo.Tables example_ingest))
      = ''[JOB 9] ingested L6:000200 (4096 B), L0:000201 (512 B)''"
    by code_simp
  show ?thesis
    using ingest_omits_global_seqnum [OF err, where X = ext0 and g = 34]
    unfolding tables .
qed

end
